theory Spec2Isabelle
  imports Complex_Main "HOL-Library.Sublist"
begin

section \<open>Deployment descriptor (wrangler.jsonc)\<close>

text \<open>
  The descriptor is the parsed JSON document that \<^verbatim>\<open>mergeWranglerConfig\<close> mutates and
  \<^verbatim>\<open>generateWranglerConfig\<close> creates. A key that may be missing from the document (or
  be \<^verbatim>\<open>null\<close>) is an \<open>option\<close> where the program only tests it for truth; arrays are
  lists in document order. A container's \<^verbatim>\<open>image\<close> is compared with \<^verbatim>\<open>===\<close>, which
  tells a missing key from \<^verbatim>\<open>null\<close>, so it keeps the three cases apart.
\<close>

datatype json_string =
    Undefined
  | Null
  | Str string

text \<open>A value the program holds as a string or \<^verbatim>\<open>null\<close>, as it stands in the document.\<close>

definition nullable :: "string option \<Rightarrow> json_string" where
  "nullable s = (case s of None \<Rightarrow> Null | Some v \<Rightarrow> Str v)"

record container =
  c_class_name :: string
  c_image :: json_string
  c_max_instances :: "int option"
  c_instance_type :: string

record binding =
  b_class_name :: string
  b_name :: string

record durable_objects =
  bindings :: "binding list option"

record migration =
  new_sqlite_classes :: "string list option"
  tag :: string

record wrangler_config =
  w_name :: "string option"
  w_main :: "string option"
  w_compatibility_date :: "string option"
  w_compatibility_flags :: "string list option"
  w_observability_enabled :: "bool option"
  w_containers :: "container list option"
  w_durable_objects :: "durable_objects option"
  w_migrations :: "migration list option"

text \<open>Errors that the JavaScript raises, as values.\<close>

datatype error =
    ReferenceError string  \<comment> \<open>a free identifier is evaluated: \<^verbatim>\<open>x is not defined\<close>\<close>
  | TypeError              \<comment> \<open>property access on a value that is not an object\<close>
  | ENOENT                 \<comment> \<open>\<^verbatim>\<open>fs.readFile\<close> of a path that does not exist\<close>
  | EISDIR                 \<comment> \<open>reading or writing a directory as a file\<close>
  | EEXIST                 \<comment> \<open>\<^verbatim>\<open>fs.ensureDir\<close> of a path that is a file\<close>

section \<open>The working directory\<close>

text \<open>
  The file system is a map from paths to files. A file is a directory, a text file, or a
  JSON(C) document that parses to a descriptor. \<^verbatim>\<open>Worker\<close> stands for the TypeScript
  stub \<^verbatim>\<open>src/index.ts\<close>, abstracted to the classes it exports (in order), each with its
  \<^verbatim>\<open>defaultPort\<close>, and \<^verbatim>\<open>Opaque\<close> for a file whose content the model does not track
  (\<^verbatim>\<open>package.json\<close>, \<^verbatim>\<open>tsconfig.json\<close>).
\<close>

datatype fs_entry =
    Dir
  | Text string
  | Descriptor wrangler_config
  | Worker "(string \<times> int) list"
  | Opaque

type_synonym file_store = "string \<Rightarrow> fs_entry option"

definition pathExists :: "file_store \<Rightarrow> string \<Rightarrow> bool" where
  "pathExists fs p = (fs p \<noteq> None)"

text \<open>
  A step that writes: the error it raised, if any, and the file system after it.
  \<^verbatim>\<open>fs.writeFile\<close> replaces a file or creates it, and fails on a directory.
\<close>

type_synonym step_result = "error option \<times> file_store"

definition writeFile :: "file_store \<Rightarrow> string \<Rightarrow> fs_entry \<Rightarrow> step_result" where
  "writeFile fs p f = (if fs p = Some Dir then (Some EISDIR, fs) else (None, fs(p \<mapsto> f)))"

text \<open>\<^verbatim>\<open>fs.ensureDir\<close>: creates the directory unless it is there.\<close>

definition ensureDir :: "file_store \<Rightarrow> string \<Rightarrow> step_result" where
  "ensureDir fs p =
     (case fs p of
        None \<Rightarrow> (None, fs(p \<mapsto> Dir))
      | Some Dir \<Rightarrow> (None, fs)
      | Some _ \<Rightarrow> (Some EEXIST, fs))"

text \<open>Steps in sequence; the first error ends the sequence, and what was written stays.\<close>

fun run_steps :: "(file_store \<Rightarrow> step_result) list \<Rightarrow> file_store \<Rightarrow> step_result" where
  "run_steps [] fs = (None, fs)"
| "run_steps (s # ss) fs =
     (case s fs of
        (Some e, fs') \<Rightarrow> (Some e, fs')
      | (None, fs') \<Rightarrow> run_steps ss fs')"

text \<open>
  \<^verbatim>\<open>parseJsonc(await fs.readFile(path, 'utf8'))\<close> followed by the first property access
  on the result: a missing path and a directory make \<^verbatim>\<open>readFile\<close> reject; a file that is
  not a descriptor document makes the property access fail.
\<close>

definition readDescriptor :: "file_store \<Rightarrow> string \<Rightarrow> error + wrangler_config" where
  "readDescriptor fs p =
     (case fs p of
        None \<Rightarrow> Inl ENOENT
      | Some Dir \<Rightarrow> Inl EISDIR
      | Some (Descriptor c) \<Rightarrow> Inr c
      | Some _ \<Rightarrow> Inl TypeError)"

section \<open>Numbers in template strings\<close>

definition digit_chars :: string where
  "digit_chars = ''0123456789''"

definition digit_char :: "nat \<Rightarrow> char" where
  "digit_char d = digit_chars ! d"

text \<open>The decimal numeral that \<^verbatim>\<open>`${n}`\<close> produces for a non-negative integer.\<close>

fun show_nat :: "nat \<Rightarrow> string" where
  "show_nat n = (if n < 10 then [digit_char n] else show_nat (n div 10) @ [digit_char (n mod 10)])"

declare show_nat.simps [simp del]

section \<open>mergeWranglerConfig\<close>

text \<open>\<^verbatim>\<open>Array.prototype.findIndex\<close>: the first index whose element satisfies the test.\<close>

fun findIndex :: "('a \<Rightarrow> bool) \<Rightarrow> 'a list \<Rightarrow> nat option" where
  "findIndex P [] = None"
| "findIndex P (x # xs) = (if P x then Some 0 else map_option Suc (findIndex P xs))"

text \<open>Lines 553-574: the container entry is replaced in place or appended.\<close>

definition upsertContainer ::
  "container list option \<Rightarrow> string \<Rightarrow> string option \<Rightarrow> int option \<Rightarrow> container list" where
  "upsertContainer cs0 className dockerfilePath maxInstances =
     (let cs = (case cs0 of None \<Rightarrow> [] | Some cs \<Rightarrow> cs);
          newContainer = \<lparr> c_class_name = className, c_image = nullable dockerfilePath,
                           c_max_instances = maxInstances, c_instance_type = ''basic'' \<rparr>
      in case findIndex (\<lambda>c. c_image c = nullable dockerfilePath \<or> c_class_name c = className) cs of
           Some i \<Rightarrow> cs[i := newContainer]
         | None \<Rightarrow> cs @ [newContainer])"

text \<open>Lines 576-593: the binding is replaced in place or appended.\<close>

definition upsertBinding :: "durable_objects option \<Rightarrow> string \<Rightarrow> string \<Rightarrow> durable_objects" where
  "upsertBinding d0 className bindingName =
     (let bs = (case d0 of None \<Rightarrow> [] | Some d \<Rightarrow> (case bindings d of None \<Rightarrow> [] | Some bs \<Rightarrow> bs));
          newBinding = \<lparr> b_class_name = className, b_name = bindingName \<rparr>
      in \<lparr> bindings = Some (case findIndex (\<lambda>b. b_class_name b = className) bs of
                               Some i \<Rightarrow> bs[i := newBinding]
                             | None \<Rightarrow> bs @ [newBinding]) \<rparr>)"

text \<open>
  Line 599: \<^verbatim>\<open>migrations.some(m => m.new_sqlite_classes?.includes(className))\<close>.
\<close>

definition classExistsInMigrations :: "migration list \<Rightarrow> string \<Rightarrow> bool" where
  "classExistsInMigrations ms className =
     list_ex (\<lambda>m. case new_sqlite_classes m of None \<Rightarrow> False | Some cs \<Rightarrow> className \<in> set cs) ms"

text \<open>
  Lines 603-638. The function's parameters are \<^verbatim>\<open>wranglerPath, className, bindingName,
  dockerfilePath, maxInstances\<close>, and the module binds neither \<^verbatim>\<open>opts\<close> nor \<^verbatim>\<open>ctx\<close>:
  when there is no latest migration, evaluating \<^verbatim>\<open>opts.migrationTag\<close> (line 607) raises
  a ReferenceError before anything is pushed.
\<close>

definition allocateMigration :: "migration list \<Rightarrow> string \<Rightarrow> error + migration list" where
  "allocateMigration ms className =
     (if classExistsInMigrations ms className then Inr ms
      else if ms = [] then Inl (ReferenceError ''opts'')
      else
        let latestMigration = last ms;
            classes = (case new_sqlite_classes latestMigration of None \<Rightarrow> [] | Some cs \<Rightarrow> cs)
        in if length classes \<ge> 3
           then Inr (ms @ [\<lparr> new_sqlite_classes = Some [className],
                             tag = ''v'' @ show_nat (length ms + 1) \<rparr>])
           else Inr (butlast ms @
                     [latestMigration\<lparr> new_sqlite_classes := Some (classes @ [className]) \<rparr>]))"

text \<open>Lines 640-645.\<close>

definition addCompatFlag :: "string list option \<Rightarrow> string list" where
  "addCompatFlag fs0 =
     (let flags = (case fs0 of None \<Rightarrow> [] | Some f \<Rightarrow> f)
      in if ''nodejs_compat'' \<in> set flags then flags else flags @ [''nodejs_compat''])"

text \<open>The in-memory part of the merge: everything between the read and the write.\<close>

definition mergeConfig ::
  "wrangler_config \<Rightarrow> string \<Rightarrow> string \<Rightarrow> string option \<Rightarrow> int option \<Rightarrow> error + wrangler_config" where
  "mergeConfig existingConfig className bindingName dockerfilePath maxInstances =
     (let c1 = existingConfig\<lparr> w_containers :=
                 Some (upsertContainer (w_containers existingConfig) className dockerfilePath maxInstances) \<rparr>;
          c2 = c1\<lparr> w_durable_objects :=
                 Some (upsertBinding (w_durable_objects c1) className bindingName) \<rparr>;
          ms = (case w_migrations c2 of None \<Rightarrow> [] | Some ms \<Rightarrow> ms)
      in case allocateMigration ms className of
           Inl e \<Rightarrow> Inl e
         | Inr ms' \<Rightarrow>
             Inr (c2\<lparr> w_migrations := Some ms',
                      w_compatibility_flags := Some (addCompatFlag (w_compatibility_flags c2)) \<rparr>))"

text \<open>
  The whole function: read, merge, and write only when the merge did not throw (the
  \<^verbatim>\<open>catch\<close> logs and rethrows).
\<close>

definition mergeWranglerConfig ::
  "file_store \<Rightarrow> string \<Rightarrow> string \<Rightarrow> string \<Rightarrow> string option \<Rightarrow> int option \<Rightarrow> step_result" where
  "mergeWranglerConfig fs wranglerPath className bindingName dockerfilePath maxInstances =
     (case readDescriptor fs wranglerPath of
        Inl e \<Rightarrow> (Some e, fs)
      | Inr existingConfig \<Rightarrow>
          (case mergeConfig existingConfig className bindingName dockerfilePath maxInstances of
             Inl e \<Rightarrow> (Some e, fs)
           | Inr c \<Rightarrow> writeFile fs wranglerPath (Descriptor c)))"

section \<open>Strings\<close>

text \<open>
  Strings are byte strings; the text-level operations below are the JavaScript ones on
  ASCII text (letter case, \<^verbatim>\<open>\s\<close> and line terminators of other alphabets are not
  modelled).
\<close>

definition includes_char :: "string \<Rightarrow> char \<Rightarrow> bool" where
  "includes_char s c = (c \<in> set s)"

definition lower_letters :: string where
  "lower_letters = ''abcdefghijklmnopqrstuvwxyz''"

definition upper_letters :: string where
  "upper_letters = ''ABCDEFGHIJKLMNOPQRSTUVWXYZ''"

definition upper_char :: "char \<Rightarrow> char" where
  "upper_char c = (case map_of (zip lower_letters upper_letters) c of Some u \<Rightarrow> u | None \<Rightarrow> c)"

definition toUpperCase :: "string \<Rightarrow> string" where
  "toUpperCase s = map upper_char s"

text \<open>The class \<^verbatim>\<open>\s\<close>: space, tab, line feed, vertical tab, form feed, carriage return.\<close>

definition is_space :: "char \<Rightarrow> bool" where
  "is_space c = (c \<in> set [CHR '' '', CHR 0x09, CHR 0x0A, CHR 0x0B, CHR 0x0C, CHR 0x0D])"

definition is_line_terminator :: "char \<Rightarrow> bool" where
  "is_line_terminator c = (c \<in> set [CHR 0x0A, CHR 0x0D])"

definition trim :: "string \<Rightarrow> string" where
  "trim s = rev (dropWhile is_space (rev (dropWhile is_space s)))"

text \<open>\<^verbatim>\<open>s.split(c)\<close> for a one-character separator: never empty.\<close>

fun split_on :: "char \<Rightarrow> string \<Rightarrow> string list" where
  "split_on c [] = [[]]"
| "split_on c (x # xs) =
     (if x = c then [] # split_on c xs
      else (case split_on c xs of [] \<Rightarrow> [[x]] | p # ps \<Rightarrow> (x # p) # ps))"

text \<open>
  \<^verbatim>\<open>s.replace(pat, rep)\<close> with a string pattern: only the first occurrence is replaced.
\<close>

fun replace_first :: "string \<Rightarrow> string \<Rightarrow> string \<Rightarrow> string" where
  "replace_first pat rep [] = (if pat = [] then rep else [])"
| "replace_first pat rep (x # xs) =
     (if prefix pat (x # xs) then rep @ drop (length pat) (x # xs)
      else x # replace_first pat rep xs)"

definition startsWith :: "string \<Rightarrow> string \<Rightarrow> bool" where
  "startsWith s p = prefix p s"

definition js_join :: "string \<Rightarrow> string list \<Rightarrow> string" where
  "js_join sep xs = concat (case xs of [] \<Rightarrow> [] | y # ys \<Rightarrow> y # map ((@) sep) ys)"

text \<open>A string is truthy when it is neither \<^verbatim>\<open>null\<close>/\<^verbatim>\<open>undefined\<close> nor empty.\<close>

definition truthy :: "string option \<Rightarrow> bool" where
  "truthy s = (case s of None \<Rightarrow> False | Some v \<Rightarrow> v \<noteq> [])"

subsection \<open>parseInt\<close>

text \<open>
  \<^verbatim>\<open>parseInt(s)\<close> without a radix: leading white space and a sign are skipped, a
  \<^verbatim>\<open>0x\<close> prefix selects base 16, the longest run of digits is read, and no digit at
  all gives \<^verbatim>\<open>NaN\<close> (\<open>None\<close>). The result is a double: an integer that needs more than
  53 bits is rounded to the nearest one that does not, ties to the even one. (A numeral
  of 2 to the 1024 or more, which the program reads as \<^verbatim>\<open>Infinity\<close>, is rounded in the
  same way here.)
\<close>

fun bit_length :: "nat \<Rightarrow> nat" where
  "bit_length n = (if n = 0 then 0 else Suc (bit_length (n div 2)))"

declare bit_length.simps [simp del]

definition round_to_double :: "nat \<Rightarrow> nat" where
  "round_to_double n =
     (let e = bit_length n - 53
      in if e = 0 then n
         else let q = n div 2 ^ e; r = n mod 2 ^ e; half = 2 ^ (e - 1)
              in (if r > half \<or> (r = half \<and> odd q) then q + 1 else q) * 2 ^ e)"

definition digit_value :: "char \<Rightarrow> nat option" where
  "digit_value c =
     map_of (zip digit_chars [0..<10] @ zip ''abcdef'' [10..<16] @ zip ''ABCDEF'' [10..<16]) c"

definition is_digit_in :: "nat \<Rightarrow> char \<Rightarrow> bool" where
  "is_digit_in radix c = (case digit_value c of None \<Rightarrow> False | Some d \<Rightarrow> d < radix)"

definition digits_value :: "nat \<Rightarrow> string \<Rightarrow> nat" where
  "digits_value radix ds = foldl (\<lambda>acc c. acc * radix + the (digit_value c)) 0 ds"

definition parseInt :: "string \<Rightarrow> int option" where
  "parseInt s =
     (let t = dropWhile is_space s;
          neg = (t \<noteq> [] \<and> hd t = CHR ''-'');
          u = (if t \<noteq> [] \<and> (hd t = CHR ''-'' \<or> hd t = CHR ''+'') then tl t else t);
          hex = (prefix ''0x'' u \<or> prefix ''0X'' u);
          radix = (if hex then 16 else 10);
          v = (if hex then drop 2 u else u);
          ds = takeWhile (is_digit_in radix) v
      in if ds = [] then None
         else Some (if neg then - int (round_to_double (digits_value radix ds))
                    else int (round_to_double (digits_value radix ds))))"

subsection \<open>Paths\<close>

text \<open>
  POSIX paths. \<^verbatim>\<open>path.join(dir, name)\<close> is used with the working directory and a
  fixed relative name only.
\<close>

definition path_join :: "string \<Rightarrow> string \<Rightarrow> string" where
  "path_join dir name = dir @ ''/'' @ name"

text \<open>The last portion of a path, trailing separators dropped.\<close>

definition path_basename :: "string \<Rightarrow> string" where
  "path_basename p = last (split_on CHR ''/'' (rev (dropWhile (\<lambda>c. c = CHR ''/'') (rev p))))"

text \<open>
  \<^verbatim>\<open>path.extname\<close>: from the last dot of the last portion to its end; empty when that
  portion has no dot, when its only dot is its first character, and for \<^verbatim>\<open>..\<close>.
\<close>

definition path_extname :: "string \<Rightarrow> string" where
  "path_extname p =
     (let b = path_basename p;
          after = rev (takeWhile (\<lambda>c. c \<noteq> CHR ''.'') (rev b))
      in if \<not> includes_char b CHR ''.'' then []
         else if length after + 1 = length b then []
         else if b = ''..'' then []
         else CHR ''.'' # after)"

text \<open>\<^verbatim>\<open>path.relative(cwd, p)\<close> for a path below the working directory.\<close>

definition path_relative :: "string \<Rightarrow> string \<Rightarrow> string" where
  "path_relative dir p = (if prefix (dir @ ''/'') p then drop (length dir + 1) p else p)"

subsection \<open>Regular expressions\<close>

text \<open>
  A backtracking matcher for sequences of the atoms the program's patterns use: a
  literal character, a greedy \<^verbatim>\<open>*\<close> or \<^verbatim>\<open>+\<close> over a character class, and the
  multi-line \<^verbatim>\<open>$\<close>. The result lists the text each atom matched, so that a capture
  group is an index into it.
\<close>

datatype rx_atom =
    RChar char
  | RStar "char \<Rightarrow> bool"
  | RPlus "char \<Rightarrow> bool"
  | REol

text \<open>Greedy repetition: the longest run first, then one character less, down to \<open>lo\<close>.\<close>

primrec greedy :: "(string \<Rightarrow> string list option) \<Rightarrow> string \<Rightarrow> nat \<Rightarrow> nat \<Rightarrow> string list option" where
  "greedy k s lo 0 = (if lo = 0 then map_option ((#) []) (k s) else None)"
| "greedy k s lo (Suc n) =
     (if Suc n < lo then None
      else (case k (drop (Suc n) s) of
              Some caps \<Rightarrow> Some (take (Suc n) s # caps)
            | None \<Rightarrow> greedy k s lo n))"

primrec rx_match :: "rx_atom list \<Rightarrow> string \<Rightarrow> string list option" where
  "rx_match [] s = Some []"
| "rx_match (a # as) s =
     (case a of
        RChar c \<Rightarrow>
          (case s of [] \<Rightarrow> None
           | x # xs \<Rightarrow> if x = c then map_option ((#) [x]) (rx_match as xs) else None)
      | RStar P \<Rightarrow> greedy (rx_match as) s 0 (length (takeWhile P s))
      | RPlus P \<Rightarrow> greedy (rx_match as) s 1 (length (takeWhile P s))
      | REol \<Rightarrow>
          (if s = [] \<or> is_line_terminator (hd s) then map_option ((#) []) (rx_match as s)
           else None))"

text \<open>
  A pattern anchored with the multi-line \<^verbatim>\<open>^\<close>: the leftmost line start at which the
  atoms match. The flag says whether the current position starts a line.
\<close>

fun rx_search_lines :: "rx_atom list \<Rightarrow> bool \<Rightarrow> string \<Rightarrow> string list option" where
  "rx_search_lines atoms at_start [] = (if at_start then rx_match atoms [] else None)"
| "rx_search_lines atoms at_start (x # xs) =
     (case (if at_start then rx_match atoms (x # xs) else None) of
        Some caps \<Rightarrow> Some caps
      | None \<Rightarrow> rx_search_lines atoms (is_line_terminator x) xs)"

text \<open>Line 224: \<^verbatim>\<open>/^IMAGE\s*=\s*(.+)$/m\<close>; the group is the ninth atom.\<close>

definition image_pattern :: "rx_atom list" where
  "image_pattern =
     map RChar ''IMAGE'' @
     [RStar is_space, RChar CHR ''='', RStar is_space,
      RPlus (\<lambda>c. \<not> is_line_terminator c), REol]"

definition match_image :: "string \<Rightarrow> string option" where
  "match_image envContent =
     map_option (\<lambda>caps. caps ! 8) (rx_search_lines image_pattern True envContent)"

text \<open>Line 226: \<^verbatim>\<open>.replace(/['"]/g, '')\<close>.\<close>

definition strip_quotes :: "string \<Rightarrow> string" where
  "strip_quotes s = filter (\<lambda>c. c \<noteq> CHR 0x27 \<and> c \<noteq> CHR 0x22) s"

section \<open>Options, context and capabilities\<close>

text \<open>
  The option object as the action handler uses it, after
  \<^verbatim>\<open>Object.assign(opts, ctx.config)\<close>: one field for each key the program reads, and
  \<^verbatim>\<open>prompt\<close>, the key that the option parser writes for \<^verbatim>\<open>--no-prompt\<close>. A boolean key
  that is missing is \<open>False\<close>, as every test of the program takes it.
\<close>

record opts =
  opt_ship :: bool
  opt_plan :: bool
  opt_detect :: bool
  opt_type :: "string option"
  opt_name :: "string option"
  opt_class :: "string option"
  opt_maxInstances :: "string option"
  opt_migrationTag :: "string option"
  opt_prompt :: bool
  opt_noPrompt :: bool
  opt_force :: bool
  opt_verbose :: bool

text \<open>
  Lines 24-34 of the command declare the options; the flags of a command line, already
  split into words, are one value each.
\<close>

datatype cli_flag =
    Flag_ship
  | Flag_plan
  | Flag_detect
  | Flag_type string
  | Flag_name string
  | Flag_class string
  | Flag_max_instances string
  | Flag_migration_tag string
  | Flag_no_prompt
  | Flag_force
  | Flag_verbose

text \<open>
  The option object before any flag is read: \<^verbatim>\<open>--max-instances\<close> is declared with the
  default \<^verbatim>\<open>'10'\<close> (line 30), and an option declared in the negated form only
  (\<^verbatim>\<open>--no-prompt\<close>, line 32) is kept by \<^verbatim>\<open>commander\<close> under the name without
  \<^verbatim>\<open>no-\<close>, with the default \<^verbatim>\<open>true\<close>. No declaration creates a key \<^verbatim>\<open>noPrompt\<close>.
\<close>

definition default_opts :: opts where
  "default_opts =
     \<lparr> opt_ship = False, opt_plan = False, opt_detect = False, opt_type = None,
       opt_name = None, opt_class = None, opt_maxInstances = Some ''10'', opt_migrationTag = None,
       opt_prompt = True, opt_noPrompt = False, opt_force = False, opt_verbose = False \<rparr>"

text \<open>
  Each flag sets the key that is its long name in camel case; \<^verbatim>\<open>--no-prompt\<close> sets
  \<^verbatim>\<open>prompt\<close> to \<^verbatim>\<open>false\<close>.
\<close>

fun apply_flag :: "opts \<Rightarrow> cli_flag \<Rightarrow> opts" where
  "apply_flag opts Flag_ship = opts\<lparr> opt_ship := True \<rparr>"
| "apply_flag opts Flag_plan = opts\<lparr> opt_plan := True \<rparr>"
| "apply_flag opts Flag_detect = opts\<lparr> opt_detect := True \<rparr>"
| "apply_flag opts (Flag_type t) = opts\<lparr> opt_type := Some t \<rparr>"
| "apply_flag opts (Flag_name n) = opts\<lparr> opt_name := Some n \<rparr>"
| "apply_flag opts (Flag_class k) = opts\<lparr> opt_class := Some k \<rparr>"
| "apply_flag opts (Flag_max_instances n) = opts\<lparr> opt_maxInstances := Some n \<rparr>"
| "apply_flag opts (Flag_migration_tag t) = opts\<lparr> opt_migrationTag := Some t \<rparr>"
| "apply_flag opts Flag_no_prompt = opts\<lparr> opt_prompt := False \<rparr>"
| "apply_flag opts Flag_force = opts\<lparr> opt_force := True \<rparr>"
| "apply_flag opts Flag_verbose = opts\<lparr> opt_verbose := True \<rparr>"

text \<open>
  What the action handler receives as \<^verbatim>\<open>opts\<close> (line 35). In a directory without a
  configuration file \<^verbatim>\<open>ctx.config\<close> is empty and line 41 leaves it as it is.
\<close>

definition parse_options :: "cli_flag list \<Rightarrow> opts" where
  "parse_options flags = foldl apply_flag default_opts flags"

text \<open>
  \<^verbatim>\<open>loadContext\<close>'s result; \<^verbatim>\<open>args\<close> is the positional target, if any. Its
  \<^verbatim>\<open>config\<close> is already part of the options.
\<close>

record ctx =
  cwd :: string
  args :: "string list"

record metadata =
  image :: "string option"
  dockerfilePath :: "string option"

text \<open>
  A detection result. \<^verbatim>\<open>detector: this\<close> is kept as the detector's id and name.
\<close>

record detection_result =
  r_detector_id :: string
  r_detector_name :: string
  confidence :: real
  indicators :: "string list"
  metadata :: metadata

record choice =
  ch_name :: string
  ch_value :: detection_result

text \<open>
  What the program cannot compute: the answers of the person at the terminal
  (\<^verbatim>\<open>inquirer.prompt\<close>), the date, and the exit codes of the three spawned commands.
\<close>

record world =
  select :: "choice list \<Rightarrow> detection_result"
  proceed :: bool
  today :: string
  npm_install :: int
  wrangler_types :: int
  wrangler_deploy :: int

record scaffold_result =
  sr_projectName :: string
  sr_className :: string
  sr_bindingName :: string

record detector =
  det_id :: string
  det_name :: string
  det_detect :: "ctx \<Rightarrow> opts \<Rightarrow> file_store \<Rightarrow> error + detection_result option"
  det_scaffold :: "ctx \<Rightarrow> opts \<Rightarrow> detection_result \<Rightarrow> world \<Rightarrow> file_store
                     \<Rightarrow> (error + scaffold_result option) \<times> file_store"
  det_deploy :: "world \<Rightarrow> bool"

text \<open>
  \<^verbatim>\<open>fs.readFile(path, 'utf8')\<close>. The text of a JSON document or of the stub is not
  modelled: the line patterns of the program find nothing in it.
\<close>

definition readFile :: "file_store \<Rightarrow> string \<Rightarrow> error + string" where
  "readFile fs p =
     (case fs p of
        None \<Rightarrow> Inl ENOENT
      | Some Dir \<Rightarrow> Inl EISDIR
      | Some (Text s) \<Rightarrow> Inr s
      | Some _ \<Rightarrow> Inr [])"

section \<open>ContainerDetector.detect\<close>

record det_state =
  ds_indicators :: "string list"
  ds_confidence :: real
  ds_image :: "string option"
  ds_dockerfilePath :: "string option"

text \<open>Lines 187-194: the positional argument.\<close>

definition detect_arg :: "ctx \<Rightarrow> det_state \<Rightarrow> det_state" where
  "detect_arg c s =
     (case args c of
        [] \<Rightarrow> s
      | arg # _ \<Rightarrow>
          if (includes_char arg CHR '':'' \<or> includes_char arg CHR ''/'') \<and> path_extname arg = []
          then s\<lparr> ds_image := Some arg,
                  ds_indicators := ds_indicators s @ [''Explicit image reference: '' @ arg],
                  ds_confidence := 0.95 \<rparr>
          else s)"

text \<open>Lines 196-205: the first build descriptor that exists.\<close>

definition detect_dockerfile :: "ctx \<Rightarrow> file_store \<Rightarrow> det_state \<Rightarrow> det_state" where
  "detect_dockerfile c fs s =
     (case List.find (\<lambda>df. pathExists fs (path_join (cwd c) df))
             [''Dockerfile'', ''Containerfile'', ''dockerfile''] of
        None \<Rightarrow> s
      | Some df \<Rightarrow>
          s\<lparr> ds_indicators := ds_indicators s @ [''Found '' @ df],
             ds_confidence := max (ds_confidence s) 0.9,
             ds_dockerfilePath := Some (path_join (cwd c) df) \<rparr>)"

text \<open>Lines 207-214.\<close>

definition detect_compose :: "ctx \<Rightarrow> file_store \<Rightarrow> det_state \<Rightarrow> det_state" where
  "detect_compose c fs s =
     (case List.find (\<lambda>cf. pathExists fs (path_join (cwd c) cf))
             [''docker-compose.yml'', ''docker-compose.yaml'', ''compose.yml'', ''compose.yaml''] of
        None \<Rightarrow> s
      | Some cf \<Rightarrow>
          s\<lparr> ds_indicators := ds_indicators s @ [''Found '' @ cf],
             ds_confidence := max (ds_confidence s) 0.7 \<rparr>)"

text \<open>Lines 216-219.\<close>

definition detect_docker_dir :: "ctx \<Rightarrow> file_store \<Rightarrow> det_state \<Rightarrow> det_state" where
  "detect_docker_dir c fs s =
     (if pathExists fs (path_join (cwd c) ''.docker'')
      then s\<lparr> ds_indicators := ds_indicators s @ [''Found .docker directory''],
              ds_confidence := max (ds_confidence s) 0.6 \<rparr>
      else s)"

text \<open>Lines 221-230: the environment file; reading it may fail.\<close>

definition detect_env :: "ctx \<Rightarrow> file_store \<Rightarrow> det_state \<Rightarrow> error + det_state" where
  "detect_env c fs s =
     (let envFile = path_join (cwd c) ''.env''
      in if pathExists fs envFile
         then (case readFile fs envFile of
                 Inl e \<Rightarrow> Inl e
               | Inr envContent \<Rightarrow>
                   (case match_image envContent of
                      None \<Rightarrow> Inr s
                    | Some m \<Rightarrow>
                        let img = strip_quotes m
                        in Inr (s\<lparr> ds_image := Some img,
                                   ds_indicators := ds_indicators s @ [''Found IMAGE in .env: '' @ img],
                                   ds_confidence := max (ds_confidence s) 0.8 \<rparr>)))
         else Inr s)"

text \<open>Lines 232-235.\<close>

definition detect_manifest :: "ctx \<Rightarrow> file_store \<Rightarrow> det_state \<Rightarrow> det_state" where
  "detect_manifest c fs s =
     (if pathExists fs (path_join (cwd c) ''manifest.json'')
      then s\<lparr> ds_indicators := ds_indicators s @ [''Found OCI manifest.json''],
              ds_confidence := max (ds_confidence s) 0.85 \<rparr>
      else s)"

definition detect :: "ctx \<Rightarrow> opts \<Rightarrow> file_store \<Rightarrow> error + detection_result option" where
  "detect c opts fs =
     (let s0 = \<lparr> ds_indicators = [], ds_confidence = 0, ds_image = None, ds_dockerfilePath = None \<rparr>;
          s4 = detect_docker_dir c fs (detect_compose c fs (detect_dockerfile c fs (detect_arg c s0)))
      in case detect_env c fs s4 of
           Inl e \<Rightarrow> Inl e
         | Inr s5 \<Rightarrow>
             let s6 = detect_manifest c fs s5
             in if ds_confidence s6 = 0 then Inr None
                else Inr (Some \<lparr> r_detector_id = ''container'', r_detector_name = ''Container'',
                                  confidence = ds_confidence s6, indicators = ds_indicators s6,
                                  metadata = \<lparr> image = ds_image s6,
                                               dockerfilePath = ds_dockerfilePath s6 \<rparr> \<rparr>))"

section \<open>autoDetect\<close>

definition show_int :: "int \<Rightarrow> string" where
  "show_int i = (if i < 0 then ''-'' @ show_nat (nat (- i)) else show_nat (nat i))"

text \<open>\<^verbatim>\<open>Math.round\<close>: the nearest integer, halves upwards.\<close>

definition math_round :: "real \<Rightarrow> int" where
  "math_round x = \<lfloor>x + 1 / 2\<rfloor>"

text \<open>Lines 49-54: every detector runs, in order; absent results are dropped.\<close>

fun collect_results :: "detector list \<Rightarrow> ctx \<Rightarrow> opts \<Rightarrow> file_store \<Rightarrow> error + detection_result list" where
  "collect_results [] c opts fs = Inr []"
| "collect_results (d # ds) c opts fs =
     (case det_detect d c opts fs of
        Inl e \<Rightarrow> Inl e
      | Inr r \<Rightarrow>
          (case collect_results ds c opts fs of
             Inl e \<Rightarrow> Inl e
           | Inr rs \<Rightarrow> Inr (case r of None \<Rightarrow> rs | Some x \<Rightarrow> x # rs)))"

text \<open>Line 58: a stable sort, highest confidence first.\<close>

definition sort_results :: "detection_result list \<Rightarrow> detection_result list" where
  "sort_results rs = sort_key (\<lambda>r. - confidence r) rs"

definition choice_of :: "detection_result \<Rightarrow> choice" where
  "choice_of r =
     \<lparr> ch_name = r_detector_name r @ '' (confidence: '' @ show_int (math_round (confidence r * 100)) @ ''%)'',
       ch_value = r \<rparr>"

text \<open>
  The result, and the prompts that were shown to the person at the terminal (each one the
  list of choices offered). Confidences are real numbers here; the program's are doubles,
  whose difference is rounded before it is compared with 0.1 (for 0.9 and 0.8 the program
  finds a gap just below 0.1 and takes the near-tie branch, where the exact gap is 0.1 and
  does not). For the confidences 0.95 and 0.9 of the examples below both agree.
\<close>

definition autoDetect ::
  "detector list \<Rightarrow> ctx \<Rightarrow> opts \<Rightarrow> world \<Rightarrow> file_store
     \<Rightarrow> (error + detection_result option) \<times> choice list list" where
  "autoDetect detectors c opts term fs =
     (case collect_results detectors c opts fs of
        Inl e \<Rightarrow> (Inl e, [])
      | Inr results0 \<Rightarrow>
          if results0 = [] then (Inr None, [])
          else
            let results = sort_results results0
            in if length results > 1 \<and> confidence (results ! 0) - confidence (results ! 1) < 0.1
               then (if opt_noPrompt opts then (Inr (Some (results ! 0)), [])
                     else let choices = map choice_of results
                          in (Inr (Some (select term choices)), [choices]))
               else (Inr (Some (results ! 0)), []))"

section \<open>ContainerDetector.scaffold\<close>

subsection \<open>Names\<close>

text \<open>Line 253: \<^verbatim>\<open>.replace(/[^a-zA-Z0-9-]/g, '-')\<close>.\<close>

definition sanitize_char :: "char \<Rightarrow> char" where
  "sanitize_char c =
     (if c \<in> set lower_letters \<or> c \<in> set upper_letters \<or> c \<in> set digit_chars \<or> c = CHR ''-''
      then c else CHR ''-'')"

text \<open>Lines 250-257.\<close>

definition resolveProjectName :: "ctx \<Rightarrow> opts \<Rightarrow> string option \<Rightarrow> string" where
  "resolveProjectName c opts img =
     (if truthy (opt_name opts) then the (opt_name opts)
      else if truthy img
      then map sanitize_char (hd (split_on CHR '':'' (last (split_on CHR ''/'' (the img)))))
      else path_basename (cwd c))"

text \<open>Lines 375-400; every failure inside is caught and gives \<^verbatim>\<open>null\<close>.\<close>

definition findExistingContainer ::
  "file_store \<Rightarrow> string \<Rightarrow> string option \<Rightarrow> string option \<Rightarrow> container option" where
  "findExistingContainer fs dir img dfPath =
     (let wranglerPath = path_join dir ''wrangler.jsonc''
      in if \<not> pathExists fs wranglerPath then None
         else (case readDescriptor fs wranglerPath of
                 Inl e \<Rightarrow> None
               | Inr wranglerConfig \<Rightarrow>
                   (case w_containers wranglerConfig of
                      None \<Rightarrow> None
                    | Some cs \<Rightarrow>
                        let targetImage =
                              (if truthy img then ''./Dockerfile.generated''
                               else if truthy dfPath then path_relative dir (the dfPath)
                               else ''./Dockerfile'')
                        in List.find (\<lambda>container.
                               c_image container = Str targetImage \<or>
                               c_image container = Str ''./Dockerfile'' \<or>
                               (truthy img \<and> c_image container = Str ''./Dockerfile.generated'')) cs)))"

text \<open>The decimal numeral of a number determines the number.\<close>

lemma show_nat_nonempty: "show_nat n \<noteq> []"
  by (subst show_nat.simps) simp

lemma digit_char_inj: "a < 10 \<Longrightarrow> b < 10 \<Longrightarrow> digit_char a = digit_char b \<Longrightarrow> a = b"
proof -
  assume a: "a < 10" and b: "b < 10" and e: "digit_char a = digit_char b"
  have d: "distinct digit_chars" by (simp add: digit_chars_def)
  have l: "length digit_chars = 10" by (simp add: digit_chars_def)
  from a b e d l show "a = b"
    by (simp add: digit_char_def nth_eq_iff_index_eq)
qed

lemma show_nat_inj: "show_nat m = show_nat n \<Longrightarrow> m = n"
proof (induction m arbitrary: n rule: show_nat.induct)
  case (1 m)
  show ?case
  proof (cases "m < 10")
    case True
    note m = this
    show ?thesis
    proof (cases "n < 10")
      case True
      with m "1.prems" show ?thesis
        by (simp add: show_nat.simps[of m] show_nat.simps[of n] digit_char_inj)
    next
      case False
      with m "1.prems" show ?thesis
        using show_nat_nonempty[of "n div 10"]
        by (simp add: show_nat.simps[of m] show_nat.simps[of n])
    qed
  next
    case False
    note m = this
    show ?thesis
    proof (cases "n < 10")
      case True
      with m "1.prems" show ?thesis
        by (simp add: show_nat.simps[of m] show_nat.simps[of n] show_nat_nonempty)
    next
      case False
      with m "1.prems" have e: "show_nat (m div 10) = show_nat (n div 10)"
        and d: "digit_char (m mod 10) = digit_char (n mod 10)"
        by (simp_all add: show_nat.simps[of m] show_nat.simps[of n])
      from "1.IH"[OF m e] have q: "m div 10 = n div 10" .
      from d have r: "m mod 10 = n mod 10" by (simp add: digit_char_inj)
      from q r show ?thesis by (metis div_mult_mod_eq)
    qed
  qed
qed

lemma finite_numbered: "finite {k. b @ show_nat k \<in> set E}"
proof -
  have "inj (\<lambda>k. b @ show_nat k)" by (auto simp: inj_on_def dest: show_nat_inj)
  then have "finite ((\<lambda>k. b @ show_nat k) -` set E)" by (simp add: finite_vimageI)
  then show ?thesis by (simp add: vimage_def)
qed

text \<open>
  Lines 439-445: the loop that appends 1, 2, 3, ... to the base name until the name is
  free. It ends because the candidates are pairwise distinct and the set is finite.
\<close>

function uniqueLoop :: "string list \<Rightarrow> string \<Rightarrow> string \<Rightarrow> nat \<Rightarrow> string" where
  "uniqueLoop existing baseName className counter =
     (if className \<in> set existing
      then uniqueLoop existing baseName (baseName @ show_nat counter) (counter + 1)
      else className)"
  by pat_completeness auto
termination
proof (relation "measure (\<lambda>(existing, baseName, className, counter).
          2 * card {k. counter \<le> k \<and> baseName @ show_nat k \<in> set existing}
          + (if className \<in> set existing then 1 else 0))", goal_cases)
  case 1
  show ?case by simp
next
  case (2 existing baseName className counter)
  let ?A = "{k. counter \<le> k \<and> baseName @ show_nat k \<in> set existing}"
  let ?B = "{k. counter + 1 \<le> k \<and> baseName @ show_nat k \<in> set existing}"
  have fA: "finite ?A" using finite_numbered[of baseName existing] by simp
  have fB: "finite ?B" using finite_numbered[of baseName existing] by simp
  from 2 have mem: "className \<in> set existing" by simp
  show ?case
  proof (cases "baseName @ show_nat counter \<in> set existing")
    case True
    then have "?A = insert counter ?B" by (auto simp: le_Suc_eq)
    moreover have "counter \<notin> ?B" by simp
    ultimately have "card ?A = Suc (card ?B)" using fB by (simp del: One_nat_def)
    with True mem show ?thesis by simp
  next
    case False
    then have "?A = ?B" by (auto simp: le_Suc_eq) (metis Suc_leI le_neq_implies_less)
    with False mem show ?thesis by simp
  qed
qed

text \<open>Lines 402-448; the two reads are guarded by \<^verbatim>\<open>try\<close>/\<^verbatim>\<open>catch\<close>.\<close>

definition existingClasses :: "file_store \<Rightarrow> string \<Rightarrow> string list" where
  "existingClasses fs dir =
     (case fs (path_join dir ''src/index.ts'') of
        Some (Worker cls) \<Rightarrow> map fst cls
      | _ \<Rightarrow> []) @
     (case readDescriptor fs (path_join dir ''wrangler.jsonc'') of
        Inr wranglerConfig \<Rightarrow>
          (case w_containers wranglerConfig of None \<Rightarrow> [] | Some cs \<Rightarrow> map c_class_name cs)
      | Inl e \<Rightarrow> [])"

definition generateUniqueClassName :: "file_store \<Rightarrow> string \<Rightarrow> string \<Rightarrow> string" where
  "generateUniqueClassName fs dir baseName = uniqueLoop (existingClasses fs dir) baseName baseName 1"

text \<open>Line 266.\<close>

definition baseClassName :: "string \<Rightarrow> string" where
  "baseClassName projectName =
     toUpperCase (take 1 projectName) @ filter (\<lambda>c. c \<noteq> CHR ''-'') (drop 1 projectName) @ ''Container''"

text \<open>Lines 261-268.\<close>

definition resolveClassName :: "file_store \<Rightarrow> ctx \<Rightarrow> opts \<Rightarrow> container option \<Rightarrow> string \<Rightarrow> string" where
  "resolveClassName fs c opts existingContainer projectName =
     (case existingContainer of
        Some ec \<Rightarrow> c_class_name ec
      | None \<Rightarrow>
          if truthy (opt_class opts) then the (opt_class opts)
          else generateUniqueClassName fs (cwd c) (baseClassName projectName))"

text \<open>Line 270.\<close>

definition bindingNameOf :: "string \<Rightarrow> string" where
  "bindingNameOf className = replace_first ''CONTAINER'' [] (toUpperCase className) @ ''_CONTAINER''"

subsection \<open>Generated files\<close>

text \<open>Lines 697-721: the first \<^verbatim>\<open>EXPOSE\<close> line whose first token parses; 8080 otherwise.\<close>

fun scan_expose :: "string list \<Rightarrow> int" where
  "scan_expose [] = 8080"
| "scan_expose (line # rest) =
     (let exposeLine = toUpperCase (trim line)
      in if startsWith exposeLine ''EXPOSE ''
         then (case parseInt (split_on CHR '' '' exposeLine ! 1) of
                 Some exposedPort \<Rightarrow> exposedPort
               | None \<Rightarrow> scan_expose rest)
         else scan_expose rest)"

definition analyzeDockerfile :: "file_store \<Rightarrow> string \<Rightarrow> int" where
  "analyzeDockerfile fs p =
     (case readFile fs p of
        Inl e \<Rightarrow> 8080
      | Inr content \<Rightarrow> scan_expose (split_on CHR 0x0A content))"

text \<open>Lines 300-301.\<close>

definition generatedDockerfile :: "string \<Rightarrow> string" where
  "generatedDockerfile img = ''FROM '' @ img @ [CHR 0x0A] @ ''EXPOSE 8080''"

text \<open>Lines 723-755: a stub that exports the one class.\<close>

definition generateWorkerCode :: "string \<Rightarrow> string \<Rightarrow> int \<Rightarrow> fs_entry" where
  "generateWorkerCode className bindingName port = Worker [(className, port)]"

text \<open>
  Lines 479-532. \<^verbatim>\<open>existingCode.includes(`export class ${className}`)\<close> holds when an
  exported class name starts with the class name; otherwise the class goes in front of
  the code. A failed read falls back to writing a fresh stub.
\<close>

definition updateWorkerCode :: "file_store \<Rightarrow> string \<Rightarrow> string \<Rightarrow> string \<Rightarrow> int \<Rightarrow> step_result" where
  "updateWorkerCode fs workerPath className bindingName port =
     (case fs workerPath of
        Some (Worker cls) \<Rightarrow>
          if list_ex (\<lambda>n. prefix className n) (map fst cls) then (None, fs)
          else writeFile fs workerPath (Worker ((className, port) # cls))
      | Some Dir \<Rightarrow> writeFile fs workerPath (generateWorkerCode className bindingName port)
      | None \<Rightarrow> writeFile fs workerPath (generateWorkerCode className bindingName port)
      | Some _ \<Rightarrow> writeFile fs workerPath (Worker [(className, port)]))"

text \<open>
  Lines 534-545. Its only call site is line 607, to the right of \<^verbatim>\<open>opts.migrationTag ||\<close>,
  which raises before the call is made.
\<close>

definition getSmartMigrationTag :: "file_store \<Rightarrow> string \<Rightarrow> string" where
  "getSmartMigrationTag fs dir =
     (let hasExistingWorker = pathExists fs (path_join dir ''src/index.ts'');
          hasExistingPackage = pathExists fs (path_join dir ''package.json'');
          hasNodeModules = pathExists fs (path_join dir ''node_modules'')
      in if (hasExistingWorker \<and> hasExistingPackage) \<or> hasNodeModules then ''v10'' else ''v1'')"

text \<open>Lines 757-789.\<close>

definition generateWranglerConfig ::
  "string \<Rightarrow> string \<Rightarrow> string \<Rightarrow> string option \<Rightarrow> int option \<Rightarrow> string \<Rightarrow> wrangler_config" where
  "generateWranglerConfig projectName className bindingName dfPath maxInstances date =
     \<lparr> w_name = Some projectName,
       w_main = Some ''src/index.ts'',
       w_compatibility_date = Some date,
       w_compatibility_flags = Some [''nodejs_compat''],
       w_observability_enabled = Some True,
       w_containers = Some [\<lparr> c_class_name = className, c_image = nullable dfPath,
                               c_max_instances = maxInstances, c_instance_type = ''basic'' \<rparr>],
       w_durable_objects = Some \<lparr> bindings = Some [\<lparr> b_class_name = className, b_name = bindingName \<rparr>] \<rparr>,
       w_migrations = Some [\<lparr> new_sqlite_classes = Some [className], tag = ''v1'' \<rparr>] \<rparr>"

text \<open>
  Lines 450-477: the whole body, the write included, is inside \<^verbatim>\<open>try\<close>; the manifest's
  content is not tracked, so the entry stays as it is.
\<close>

definition mergePackageJsonDependencies :: "file_store \<Rightarrow> string \<Rightarrow> step_result" where
  "mergePackageJsonDependencies fs p = (None, fs)"

text \<open>Lines 358-367.\<close>

definition cfignore :: string where
  "cfignore = js_join [CHR 0x0A]
     [''node_modules/'', ''*.log'', ''.env'', ''.DS_Store'', ''dist/'', ''build/'',
      ''coverage/'', ''.nyc_output/'', ''*.tgz'', ''*.tar.gz'']"

subsection \<open>scaffold\<close>

text \<open>Lines 295-312: the build descriptor the container entry refers to, and the port.\<close>

definition finalDockerfilePath :: "ctx \<Rightarrow> string option \<Rightarrow> string option \<Rightarrow> string option" where
  "finalDockerfilePath c img dfPath =
     (if truthy img \<and> \<not> truthy dfPath then Some ''./Dockerfile.generated''
      else if truthy dfPath
      then (let r = path_relative (cwd c) (the dfPath)
            in Some (if startsWith r ''.'' then r else ''./'' @ r))
      else dfPath)"

definition containerPort :: "file_store \<Rightarrow> string option \<Rightarrow> string option \<Rightarrow> int" where
  "containerPort fs img dfPath =
     (if truthy img \<and> \<not> truthy dfPath then 8080
      else if truthy dfPath then analyzeDockerfile fs (the dfPath)
      else 8080)"

text \<open>
  Lines 247-373. \<open>Inr None\<close> is the \<^verbatim>\<open>null\<close> of a declined confirmation; an error
  leaves behind what the earlier steps wrote.
\<close>

definition scaffold ::
  "ctx \<Rightarrow> opts \<Rightarrow> detection_result \<Rightarrow> world \<Rightarrow> file_store
     \<Rightarrow> (error + scaffold_result option) \<times> file_store" where
  "scaffold c opts detection w fs =
     (let img = image (metadata detection);
          dfPath = dockerfilePath (metadata detection);
          projectName = resolveProjectName c opts img;
          existingContainer = findExistingContainer fs (cwd c) img dfPath;
          className = resolveClassName fs c opts existingContainer projectName;
          bindingName = bindingNameOf className;
          maxInstances = parseInt (if truthy (opt_maxInstances opts) then the (opt_maxInstances opts) else ''10'');
          workerPath = path_join (cwd c) ''src/index.ts'';
          wranglerPath = path_join (cwd c) ''wrangler.jsonc'';
          tsConfigPath = path_join (cwd c) ''tsconfig.json'';
          packageJsonPath = path_join (cwd c) ''package.json'';
          cfignorePath = path_join (cwd c) ''.cfignore''
      in if (pathExists fs workerPath \<or> pathExists fs wranglerPath)
            \<and> \<not> opt_force opts \<and> \<not> opt_noPrompt opts \<and> \<not> proceed w
         then (Inr None, fs)
         else
           let final = finalDockerfilePath c img dfPath;
               port = containerPort fs img dfPath
           in case run_steps
                [\<lambda>fs. if truthy img \<and> \<not> truthy dfPath
                       then writeFile fs (path_join (cwd c) ''Dockerfile.generated'')
                              (Text (generatedDockerfile (the img)))
                       else (None, fs),
                 \<lambda>fs. ensureDir fs (path_join (cwd c) ''src''),
                 \<lambda>fs. if pathExists fs workerPath
                       then updateWorkerCode fs workerPath className bindingName port
                       else writeFile fs workerPath (generateWorkerCode className bindingName port),
                 \<lambda>fs. if pathExists fs wranglerPath
                       then mergeWranglerConfig fs wranglerPath className bindingName final maxInstances
                       else writeFile fs wranglerPath
                              (Descriptor (generateWranglerConfig projectName className bindingName
                                             final maxInstances (today w))),
                 \<lambda>fs. if \<not> pathExists fs tsConfigPath then writeFile fs tsConfigPath Opaque
                       else (None, fs),
                 \<lambda>fs. if \<not> pathExists fs packageJsonPath then writeFile fs packageJsonPath Opaque
                       else mergePackageJsonDependencies fs packageJsonPath,
                 \<lambda>fs. if \<not> pathExists fs cfignorePath then writeFile fs cfignorePath (Text cfignore)
                       else (None, fs)] fs of
                (Some e, fs') \<Rightarrow> (Inl e, fs')
              | (None, fs') \<Rightarrow>
                  (Inr (Some \<lparr> sr_projectName = projectName, sr_className = className,
                                sr_bindingName = bindingName \<rparr>), fs'))"

section \<open>deploy\<close>

text \<open>
  Lines 654-695: a failed install ends the sequence; the exit code of type generation is
  only logged; the deploy's exit code decides.
\<close>

definition deploy :: "world \<Rightarrow> bool" where
  "deploy w = (if npm_install w \<noteq> 0 then False else wrangler_deploy w = 0)"

section \<open>The command\<close>


definition containerDetector :: detector where
  "containerDetector =
     \<lparr> det_id = ''container'', det_name = ''Container'',
       det_detect = detect, det_scaffold = scaffold, det_deploy = deploy \<rparr>"

text \<open>Line 38.\<close>

definition detectors :: "detector list" where
  "detectors = [containerDetector]"




section \<open>Vocabulary of the properties\<close>

text \<open>The classes a migration registers (none when the key is missing).\<close>

definition classes_of :: "migration \<Rightarrow> string list" where
  "classes_of m = (case new_sqlite_classes m of None \<Rightarrow> [] | Some cs \<Rightarrow> cs)"

text \<open>The migrations that register a class, and the invariant of the document.\<close>

definition holders :: "migration list \<Rightarrow> string \<Rightarrow> migration list" where
  "holders ms x = filter (\<lambda>m. x \<in> set (classes_of m)) ms"

definition at_most_one_migration :: "migration list \<Rightarrow> bool" where
  "at_most_one_migration ms = (\<forall>x. length (holders ms x) \<le> 1)"

text \<open>The migrations of the descriptor stored at a path (none when there is no descriptor).\<close>

definition migrations_at :: "file_store \<Rightarrow> string \<Rightarrow> migration list" where
  "migrations_at fs p =
     (case fs p of
        Some (Descriptor D) \<Rightarrow> (case w_migrations D of None \<Rightarrow> [] | Some ms \<Rightarrow> ms)
      | _ \<Rightarrow> [])"

text \<open>The tags are \<^verbatim>\<open>v1\<close>, \<^verbatim>\<open>v2\<close>, ... in document order.\<close>

definition sequential_tags :: "migration list \<Rightarrow> bool" where
  "sequential_tags ms = (map tag ms = map (\<lambda>i. ''v'' @ show_nat i) [1..<length ms + 1])"

text \<open>No migration registers more than three classes.\<close>

definition batch_bounded :: "migration list \<Rightarrow> bool" where
  "batch_bounded ms = list_all (\<lambda>m. length (classes_of m) \<le> 3) ms"

text \<open>
  One merge after the other on the same descriptor, each a run of the tool; a merge that
  throws leaves the file as it was, and the next run starts from there.
\<close>

fun merge_all :: "file_store \<Rightarrow> string \<Rightarrow> (string \<times> string \<times> string option \<times> int option) list \<Rightarrow> file_store" where
  "merge_all fs p [] = fs"
| "merge_all fs p ((className, bindingName, dfPath, maxInstances) # rest) =
     merge_all (snd (mergeWranglerConfig fs p className bindingName dfPath maxInstances)) p rest"



text \<open>
  No line of a text begins with \<^verbatim>\<open>IMAGE\<close>; the flag says whether the text starts at the
  start of a line.
\<close>

fun no_image_line :: "bool \<Rightarrow> string \<Rightarrow> bool" where
  "no_image_line at_start [] = True"
| "no_image_line at_start (x # xs) =
     (if at_start \<and> prefix ''IMAGE'' (x # xs) then False
      else no_image_line (is_line_terminator x) xs)"

section \<open>Example directories\<close>

text \<open>The descriptor of a plain Worker project: no containers, no migrations yet.\<close>

definition plain_worker_config :: wrangler_config where
  "plain_worker_config =
     \<lparr> w_name = Some ''my-worker'', w_main = Some ''src/index.ts'',
       w_compatibility_date = Some ''2025-01-01'', w_compatibility_flags = None,
       w_observability_enabled = None, w_containers = None, w_durable_objects = None,
       w_migrations = None \<rparr>"

definition one_migration_config :: wrangler_config where
  "one_migration_config =
     plain_worker_config\<lparr> w_migrations := Some [\<lparr> new_sqlite_classes = Some [''ApiContainer''], tag = ''v1'' \<rparr>] \<rparr>"

definition empty_migrations_config :: wrangler_config where
  "empty_migrations_config = plain_worker_config\<lparr> w_migrations := Some [] \<rparr>"

definition crowded_v2_config :: wrangler_config where
  "crowded_v2_config =
     plain_worker_config\<lparr> w_migrations :=
       Some [\<lparr> new_sqlite_classes = Some [''ApiContainer'', ''WebContainer'', ''JobContainer''], tag = ''v2'' \<rparr>] \<rparr>"

definition full_v1_config :: wrangler_config where
  "full_v1_config =
     plain_worker_config\<lparr> w_migrations :=
       Some [\<lparr> new_sqlite_classes = Some [''ApiContainer'', ''WebContainer'', ''JobContainer''], tag = ''v1'' \<rparr>] \<rparr>"

definition four_requests :: "(string \<times> string \<times> string option \<times> int option) list" where
  "four_requests =
     [(''WebContainer'', ''WEB_CONTAINER'', Some ''./web/Dockerfile'', Some 10),
      (''JobContainer'', ''JOB_CONTAINER'', Some ''./job/Dockerfile'', Some 10),
      (''CacheContainer'', ''CACHE_CONTAINER'', Some ''./cache/Dockerfile'', Some 10),
      (''MailContainer'', ''MAIL_CONTAINER'', Some ''./mail/Dockerfile'', Some 10)]"

text \<open>
  Options of a non-interactive run with nothing overridden, and variations of them: no flag
  on the command line, and \<^verbatim>\<open>noPrompt\<close> set to \<^verbatim>\<open>true\<close> by the configuration file
  (line 41).
\<close>

definition ci_opts :: opts where
  "ci_opts = \<lparr> opt_ship = False, opt_plan = False, opt_detect = False, opt_type = None,
       opt_name = None, opt_class = None, opt_maxInstances = Some ''10'', opt_migrationTag = None,
       opt_prompt = True, opt_noPrompt = True, opt_force = False, opt_verbose = False \<rparr>"

definition tagged_opts :: opts where
  "tagged_opts = ci_opts\<lparr> opt_migrationTag := Some ''v4'' \<rparr>"





text \<open>The working directory \<^verbatim>\<open>/app\<close>, with and without the target \<^verbatim>\<open>nginx:alpine\<close>.\<close>

definition nginx_ctx :: ctx where
  "nginx_ctx = \<lparr> cwd = ''/app'', args = [''nginx:alpine''] \<rparr>"


text \<open>What \<^verbatim>\<open>detect\<close> returns for that target in an empty directory.\<close>

definition nginx_detection :: detection_result where
  "nginx_detection =
     \<lparr> r_detector_id = ''container'', r_detector_name = ''Container'', confidence = 0.95,
       indicators = [''Explicit image reference: nginx:alpine''],
       metadata = \<lparr> image = Some ''nginx:alpine'', dockerfilePath = None \<rparr> \<rparr>"


text \<open>Two people at the terminal who answer a list prompt differently, and a failing deploy.\<close>

definition first_answer :: world where
  "first_answer = \<lparr> select = (\<lambda>choices. ch_value (hd choices)), proceed = True, today = ''2025-06-01'',
       npm_install = 0, wrangler_types = 0, wrangler_deploy = 0 \<rparr>"

definition last_answer :: world where
  "last_answer = first_answer\<lparr> select := (\<lambda>choices. ch_value (last choices)) \<rparr>"


text \<open>
  A second detector, as a registry with more than one project type would hold: it always
  reports a compose project with confidence 0.9.
\<close>

definition compose_detector :: detector where
  "compose_detector =
     \<lparr> det_id = ''compose'', det_name = ''Compose'',
       det_detect = (\<lambda>c opts fs. Inr (Some \<lparr> r_detector_id = ''compose'', r_detector_name = ''Compose'',
                       confidence = 0.9, indicators = [''Found services''],
                       metadata = \<lparr> image = None, dockerfilePath = None \<rparr> \<rparr>)),
       det_scaffold = scaffold, det_deploy = deploy \<rparr>"

text \<open>A descriptor with two migrations, tagged \<^verbatim>\<open>v4\<close> and \<^verbatim>\<open>v5\<close>.\<close>

definition two_tag_config :: wrangler_config where
  "two_tag_config =
     plain_worker_config\<lparr>
       w_containers := Some [\<lparr> c_class_name = ''ApiContainer'', c_image = Str ''./api/Dockerfile'',
                                c_max_instances = Some 5, c_instance_type = ''basic'' \<rparr>,
                             \<lparr> c_class_name = ''WebContainer'', c_image = Str ''./web/Dockerfile'',
                                c_max_instances = Some 5, c_instance_type = ''basic'' \<rparr>],
       w_migrations := Some [\<lparr> new_sqlite_classes = Some [''ApiContainer''], tag = ''v4'' \<rparr>,
                             \<lparr> new_sqlite_classes = Some [''WebContainer''], tag = ''v5'' \<rparr>] \<rparr>"

section \<open>Properties of parseInt\<close>

text \<open>
  A number below 2 to the 53 is kept as it is read; above, the nearest double is taken
  (here a tie, which goes to the even neighbour).
\<close>

lemma bit_length_bound: "n < 2 ^ k \<Longrightarrow> bit_length n \<le> k"
proof (induction k arbitrary: n)
  case 0
  then show ?case by (simp add: bit_length.simps)
next
  case (Suc k)
  from Suc.prems have "n div 2 < 2 ^ k" by simp
  from Suc.IH[OF this] show ?case by (subst bit_length.simps) simp
qed

lemma bit_length_lower: "2 ^ k \<le> n \<Longrightarrow> k < bit_length n"
proof (induction k arbitrary: n)
  case 0
  then show ?case by (subst bit_length.simps) simp
next
  case (Suc k)
  from Suc.prems have "2 ^ k \<le> n div 2" by simp
  moreover from Suc.prems have "0 < n" by (cases "n = 0") auto
  ultimately show ?case using Suc.IH[of "n div 2"] by (subst bit_length.simps) auto
qed

lemma round_to_double_exact: "n < 2 ^ 53 \<Longrightarrow> round_to_double n = n"
  using bit_length_bound[of n 53] by (simp add: round_to_double_def)

lemma round_to_double_tie: "round_to_double 9007199254740993 = 9007199254740992"
proof -
  have "bit_length 9007199254740993 \<le> 54" by (rule bit_length_bound) simp
  moreover have "53 < bit_length 9007199254740993" by (rule bit_length_lower) simp
  ultimately have "bit_length 9007199254740993 = 54" by simp
  then show ?thesis by (simp add: round_to_double_def)
qed

section \<open>Properties of the descriptor merge\<close>

lemma mergeConfig_migrations:
  "mergeConfig D cn bn df mi =
     (case allocateMigration (case w_migrations D of None \<Rightarrow> [] | Some ms \<Rightarrow> ms) cn of
        Inl e \<Rightarrow> Inl e
      | Inr ms' \<Rightarrow> Inr (D\<lparr> w_containers := Some (upsertContainer (w_containers D) cn df mi),
                           w_durable_objects := Some (upsertBinding (w_durable_objects D) cn bn),
                           w_migrations := Some ms',
                           w_compatibility_flags := Some (addCompatFlag (w_compatibility_flags D)) \<rparr>))"
  by (simp add: mergeConfig_def Let_def split: sum.splits)

lemma allocate_empty: "allocateMigration [] cn = Inl (ReferenceError ''opts'')"
  by (simp add: allocateMigration_def classExistsInMigrations_def)

lemma allocate_ok_nonempty:
  "allocateMigration ms cn = Inr ms' \<Longrightarrow> ms \<noteq> []"
  by (auto simp: allocate_empty)

text \<open>
  C9. When the descriptor exists and its migrations list is absent or empty (so the class
  is not registered), the merge evaluates the unbound identifier \<^verbatim>\<open>opts\<close>: it ends
  with a ReferenceError and the file system is as it was. Hence a merge that succeeds
  found at least one migration in the descriptor.
\<close>

theorem merge_without_migrations_throws:
  "(fs p = Some (Descriptor D) \<and> (w_migrations D = None \<or> w_migrations D = Some [])
      \<longrightarrow> mergeWranglerConfig fs p cn bn df mi = (Some (ReferenceError ''opts''), fs))
   \<and> (fst (mergeWranglerConfig fs p cn bn df mi) = None
      \<longrightarrow> (\<exists>D' ms. fs p = Some (Descriptor D') \<and> w_migrations D' = Some ms
             \<and> (ms \<noteq> [] \<or> classExistsInMigrations ms cn)))"
proof (intro conjI impI)
  assume "fs p = Some (Descriptor D) \<and> (w_migrations D = None \<or> w_migrations D = Some [])"
  then show "mergeWranglerConfig fs p cn bn df mi = (Some (ReferenceError ''opts''), fs)"
    by (auto simp: mergeWranglerConfig_def readDescriptor_def mergeConfig_migrations allocate_empty)
next
  assume ok: "fst (mergeWranglerConfig fs p cn bn df mi) = None"
  then obtain D' where D': "fs p = Some (Descriptor D')"
    by (auto simp: mergeWranglerConfig_def readDescriptor_def split: option.splits fs_entry.splits)
  with ok obtain ms' where
    a: "allocateMigration (case w_migrations D' of None \<Rightarrow> [] | Some ms \<Rightarrow> ms) cn = Inr ms'"
    by (auto simp: mergeWranglerConfig_def readDescriptor_def mergeConfig_migrations split: sum.splits)
  then have "(case w_migrations D' of None \<Rightarrow> [] | Some ms \<Rightarrow> ms) \<noteq> []"
    by (rule allocate_ok_nonempty)
  then obtain ms where "w_migrations D' = Some ms" "ms \<noteq> []"
    by (cases "w_migrations D'") auto
  with D' show "\<exists>D' ms. fs p = Some (Descriptor D') \<and> w_migrations D' = Some ms
             \<and> (ms \<noteq> [] \<or> classExistsInMigrations ms cn)" by blast
qed

theorem merge_without_migrations_throws_witness:
  "mergeWranglerConfig [''/app/wrangler.jsonc'' \<mapsto> Descriptor plain_worker_config] ''/app/wrangler.jsonc''
      ''NginxContainer'' ''NGINX_CONTAINER'' (Some ''./Dockerfile.generated'') (Some 10)
     = (Some (ReferenceError ''opts''), [''/app/wrangler.jsonc'' \<mapsto> Descriptor plain_worker_config])
   \<and> fst (mergeWranglerConfig [''/app/wrangler.jsonc'' \<mapsto> Descriptor one_migration_config] ''/app/wrangler.jsonc''
      ''NginxContainer'' ''NGINX_CONTAINER'' (Some ''./Dockerfile.generated'') (Some 10)) = None
   \<and> (\<exists>D' ms. [''/app/wrangler.jsonc'' \<mapsto> Descriptor one_migration_config] ''/app/wrangler.jsonc'' = Some (Descriptor D')
         \<and> w_migrations D' = Some ms \<and> (ms \<noteq> [] \<or> classExistsInMigrations ms ''NginxContainer''))"
proof -
  let ?p = "''/app/wrangler.jsonc''"
  have h1: "[?p \<mapsto> Descriptor plain_worker_config] ?p = Some (Descriptor plain_worker_config)
            \<and> (w_migrations plain_worker_config = None \<or> w_migrations plain_worker_config = Some [])"
    by (simp add: plain_worker_config_def)
  have h2: "fst (mergeWranglerConfig [?p \<mapsto> Descriptor one_migration_config] ?p
      ''NginxContainer'' ''NGINX_CONTAINER'' (Some ''./Dockerfile.generated'') (Some 10)) = None"
    by (simp add: mergeWranglerConfig_def readDescriptor_def mergeConfig_migrations allocateMigration_def
        classExistsInMigrations_def one_migration_config_def plain_worker_config_def writeFile_def)
  from h1 h2
    merge_without_migrations_throws[of "[?p \<mapsto> Descriptor plain_worker_config]" ?p plain_worker_config
      "''NginxContainer''" "''NGINX_CONTAINER''" "Some ''./Dockerfile.generated''" "Some 10"]
    merge_without_migrations_throws[of "[?p \<mapsto> Descriptor one_migration_config]" ?p D
      "''NginxContainer''" "''NGINX_CONTAINER''" "Some ''./Dockerfile.generated''" "Some 10"]
  show ?thesis by blast
qed

lemma holds_class:
  "(case new_sqlite_classes m of None \<Rightarrow> False | Some cs \<Rightarrow> x \<in> set cs) = (x \<in> set (classes_of m))"
  by (cases "new_sqlite_classes m") (simp_all add: classes_of_def)

lemma classExists_holders: "classExistsInMigrations ms x \<longleftrightarrow> holders ms x \<noteq> []"
  by (simp add: classExistsInMigrations_def holders_def holds_class list_ex_iff filter_empty_conv)

lemma allocate_cases:
  assumes "ms \<noteq> []" "\<not> classExistsInMigrations ms cn"
  shows "allocateMigration ms cn =
     Inr (if length (classes_of (last ms)) \<ge> 3
          then ms @ [\<lparr> new_sqlite_classes = Some [cn], tag = ''v'' @ show_nat (length ms + 1) \<rparr>]
          else butlast ms @ [(last ms)\<lparr> new_sqlite_classes := Some (classes_of (last ms) @ [cn]) \<rparr>])"
  using assms by (simp add: allocateMigration_def classes_of_def Let_def)

lemma allocate_registered: "classExistsInMigrations ms cn \<Longrightarrow> allocateMigration ms cn = Inr ms"
  by (simp add: allocateMigration_def)

lemma holders_append: "holders (xs @ ys) x = holders xs x @ holders ys x"
  by (simp add: holders_def)

lemma holders_butlast_last: "ms \<noteq> [] \<Longrightarrow> holders ms x = holders (butlast ms) x @ holders [last ms] x"
  by (metis append_butlast_last_id holders_append)

lemma allocate_holders:
  assumes ne: "ms \<noteq> []" and nr: "\<not> classExistsInMigrations ms cn"
    and al: "allocateMigration ms cn = Inr ms'"
  shows "length (holders ms' cn) = 1" and "x \<noteq> cn \<Longrightarrow> length (holders ms' x) = length (holders ms x)"
proof -
  from nr have h0: "holders ms cn = []" by (simp add: classExists_holders)
  with holders_butlast_last[OF ne, of cn] have hb: "holders (butlast ms) cn = []"
    by simp
  show "length (holders ms' cn) = 1"
  proof (cases "length (classes_of (last ms)) \<ge> 3")
    case True
    with allocate_cases[OF ne nr] al
    have "ms' = ms @ [\<lparr> new_sqlite_classes = Some [cn], tag = ''v'' @ show_nat (length ms + 1) \<rparr>]" by simp
    with h0 show ?thesis by (simp add: holders_append) (simp add: holders_def classes_of_def)
  next
    case False
    with allocate_cases[OF ne nr] al
    have "ms' = butlast ms @ [(last ms)\<lparr> new_sqlite_classes := Some (classes_of (last ms) @ [cn]) \<rparr>]" by simp
    with hb show ?thesis by (simp add: holders_append) (simp add: holders_def classes_of_def)
  qed
  assume x: "x \<noteq> cn"
  show "length (holders ms' x) = length (holders ms x)"
  proof (cases "length (classes_of (last ms)) \<ge> 3")
    case True
    with allocate_cases[OF ne nr] al
    have "ms' = ms @ [\<lparr> new_sqlite_classes = Some [cn], tag = ''v'' @ show_nat (length ms + 1) \<rparr>]" by simp
    with x show ?thesis by (simp add: holders_append) (simp add: holders_def classes_of_def)
  next
    case False
    with allocate_cases[OF ne nr] al
    have "ms' = butlast ms @ [(last ms)\<lparr> new_sqlite_classes := Some (classes_of (last ms) @ [cn]) \<rparr>]" by simp
    with x holders_butlast_last[OF ne, of x] show ?thesis
      by (simp add: holders_append) (simp add: holders_def classes_of_def)
  qed
qed

text \<open>
  With at least one migration in the descriptor the allocation registers the class in
  exactly one migration, a second allocation changes nothing, and every class stays in at
  most one migration.
\<close>

lemma allocate_once_when_migrations_exist:
  assumes ne: "ms \<noteq> []" and nr: "\<not> classExistsInMigrations ms cn"
  shows "\<exists>ms'. allocateMigration ms cn = Inr ms' \<and> length (holders ms' cn) = 1
            \<and> allocateMigration ms' cn = Inr ms'
            \<and> (at_most_one_migration ms \<longrightarrow> at_most_one_migration ms')"
proof -
  from allocate_cases[OF ne nr] obtain ms' where al: "allocateMigration ms cn = Inr ms'" by simp
  have one: "length (holders ms' cn) = 1" by (rule allocate_holders(1)[OF ne nr al])
  then have "classExistsInMigrations ms' cn" by (auto simp: classExists_holders)
  then have idem: "allocateMigration ms' cn = Inr ms'" by (rule allocate_registered)
  have inv: "at_most_one_migration ms \<longrightarrow> at_most_one_migration ms'"
  proof
    assume a: "at_most_one_migration ms"
    show "at_most_one_migration ms'"
      unfolding at_most_one_migration_def
    proof
      fix x
      show "length (holders ms' x) \<le> 1"
      proof (cases "x = cn")
        case True with one show ?thesis by simp
      next
        case False
        from allocate_holders(2)[OF ne nr al False] a show ?thesis
          by (simp add: at_most_one_migration_def)
      qed
    qed
  qed
  from al one idem inv show ?thesis by blast
qed

text \<open>
  C1. The claim asks that merging a class that no migration registers puts it into exactly
  one migration. On a descriptor with an empty migrations list the merge ends with the
  ReferenceError instead, nothing is written, and the class is in no migration.
\<close>

theorem first_registration_throws:
  "mergeWranglerConfig [''/app/wrangler.jsonc'' \<mapsto> Descriptor empty_migrations_config] ''/app/wrangler.jsonc''
      ''NginxContainer'' ''NGINX_CONTAINER'' (Some ''./Dockerfile.generated'') (Some 10)
     = (Some (ReferenceError ''opts''), [''/app/wrangler.jsonc'' \<mapsto> Descriptor empty_migrations_config])
   \<and> holders (the (w_migrations empty_migrations_config)) ''NginxContainer'' = []"
  by (simp add: mergeWranglerConfig_def readDescriptor_def mergeConfig_def allocateMigration_def
        classExistsInMigrations_def empty_migrations_config_def plain_worker_config_def holders_def)

lemma merge_on_descriptor:
  assumes "fs p = Some (Descriptor D)"
  shows "mergeWranglerConfig fs p cn bn df mi =
     (case allocateMigration (case w_migrations D of None \<Rightarrow> [] | Some ms \<Rightarrow> ms) cn of
        Inl e \<Rightarrow> (Some e, fs)
      | Inr ms' \<Rightarrow> (None, fs(p \<mapsto> Descriptor
            (D\<lparr> w_containers := Some (upsertContainer (w_containers D) cn df mi),
               w_durable_objects := Some (upsertBinding (w_durable_objects D) cn bn),
               w_migrations := Some ms',
               w_compatibility_flags := Some (addCompatFlag (w_compatibility_flags D)) \<rparr>))))"
  using assms
  by (simp add: mergeWranglerConfig_def readDescriptor_def mergeConfig_migrations writeFile_def
      split: sum.splits)

lemma merge_migrations_at:
  "migrations_at (snd (mergeWranglerConfig fs p cn bn df mi)) p =
     (case allocateMigration (migrations_at fs p) cn of
        Inl e \<Rightarrow> migrations_at fs p
      | Inr ms' \<Rightarrow> (case fs p of Some (Descriptor D) \<Rightarrow> ms' | _ \<Rightarrow> migrations_at fs p))"
proof (cases "\<exists>D. fs p = Some (Descriptor D)")
  case True
  then obtain D where D: "fs p = Some (Descriptor D)" by blast
  show ?thesis
    by (simp add: merge_on_descriptor[of fs p D, OF D] D migrations_at_def split: sum.splits)
next
  case False
  then have "snd (mergeWranglerConfig fs p cn bn df mi) = fs"
    by (auto simp: mergeWranglerConfig_def readDescriptor_def split: option.splits fs_entry.splits)
  with False show ?thesis
    by (auto simp: migrations_at_def split: sum.splits option.splits fs_entry.splits)
qed

lemma show_tag_fresh:
  assumes "sequential_tags ms"
  shows "''v'' @ show_nat (length ms + 1) \<notin> set (map tag ms)"
proof
  assume "''v'' @ show_nat (length ms + 1) \<in> set (map tag ms)"
  with assms obtain i where "i \<in> set [1..<length ms + 1]" "''v'' @ show_nat (length ms + 1) = ''v'' @ show_nat i"
    by (auto simp: sequential_tags_def)
  then have "i < length ms + 1" "length ms + 1 = i" by (auto dest: show_nat_inj)
  then show False by simp
qed

lemma sequential_tags_allocate:
  assumes "sequential_tags ms" "allocateMigration ms cn = Inr ms'"
  shows "sequential_tags ms'"
proof (cases "classExistsInMigrations ms cn")
  case True
  with assms show ?thesis by (simp add: allocate_registered)
next
  case False
  from assms(2) have ne: "ms \<noteq> []" by (rule allocate_ok_nonempty)
  show ?thesis
  proof (cases "length (classes_of (last ms)) \<ge> 3")
    case True
    with allocate_cases[OF ne False] assms(2)
    have "ms' = ms @ [\<lparr> new_sqlite_classes = Some [cn], tag = ''v'' @ show_nat (length ms + 1) \<rparr>]" by simp
    with assms(1) show ?thesis by (simp add: sequential_tags_def)
  next
    case F: False
    with allocate_cases[OF ne False] assms(2)
    have m: "ms' = butlast ms @ [(last ms)\<lparr> new_sqlite_classes := Some (classes_of (last ms) @ [cn]) \<rparr>]" by simp
    have "map tag ms' = map tag (butlast ms @ [last ms])" unfolding m by simp
    also have "\<dots> = map tag ms" using ne by simp
    finally have "map tag ms' = map tag ms" .
    moreover from m ne have "length ms' = length ms" by simp
    ultimately show ?thesis using assms(1) by (simp add: sequential_tags_def)
  qed
qed

text \<open>
  C4 (as amended). When migrations exist, the class is not registered and the latest
  migration holds three classes or more, the merge appends a migration for the class alone
  whose tag is \<^verbatim>\<open>v\<close> followed by the number of migrations plus one. That tag is new
  when the tags so far are \<^verbatim>\<open>v1\<close>, ..., \<^verbatim>\<open>vn\<close> in order, and the tags stay so.
\<close>

theorem new_tag_is_next_count:
  assumes "fs p = Some (Descriptor D)" and "w_migrations D = Some ms" and "ms \<noteq> []"
    and "\<not> classExistsInMigrations ms cn" and "length (classes_of (last ms)) \<ge> 3"
  shows "\<exists>new. fst (mergeWranglerConfig fs p cn bn df mi) = None
           \<and> migrations_at (snd (mergeWranglerConfig fs p cn bn df mi)) p = ms @ [new]
           \<and> new_sqlite_classes new = Some [cn]
           \<and> tag new = ''v'' @ show_nat (length ms + 1)
           \<and> (sequential_tags ms \<longrightarrow> tag new \<notin> set (map tag ms) \<and> sequential_tags (ms @ [new]))"
proof -
  let ?new = "\<lparr> new_sqlite_classes = Some [cn], tag = ''v'' @ show_nat (length ms + 1) \<rparr>"
  from assms(3-5) have al: "allocateMigration ms cn = Inr (ms @ [?new])"
    by (simp add: allocate_cases)
  from assms(1,2) al have 1: "fst (mergeWranglerConfig fs p cn bn df mi) = None"
    by (simp add: merge_on_descriptor[of fs p D])
  from assms(1,2) al have 2: "migrations_at (snd (mergeWranglerConfig fs p cn bn df mi)) p = ms @ [?new]"
    by (simp add: merge_on_descriptor[of fs p D] migrations_at_def)
  have 3: "sequential_tags ms \<longrightarrow> tag ?new \<notin> set (map tag ms) \<and> sequential_tags (ms @ [?new])"
    using show_tag_fresh[of ms] sequential_tags_allocate[OF _ al] by simp
  from 1 2 3 show ?thesis by (intro exI[of _ ?new]) simp
qed

theorem new_tag_is_next_count_witness:
  "[''/app/wrangler.jsonc'' \<mapsto> Descriptor full_v1_config] ''/app/wrangler.jsonc'' = Some (Descriptor full_v1_config)
   \<and> the (w_migrations full_v1_config) \<noteq> []
   \<and> \<not> classExistsInMigrations (the (w_migrations full_v1_config)) ''CacheContainer''
   \<and> length (classes_of (last (the (w_migrations full_v1_config)))) \<ge> 3
   \<and> sequential_tags (the (w_migrations full_v1_config))
   \<and> (\<exists>new. fst (mergeWranglerConfig [''/app/wrangler.jsonc'' \<mapsto> Descriptor full_v1_config] ''/app/wrangler.jsonc''
                  ''CacheContainer'' ''CACHE_CONTAINER'' (Some ''./cache/Dockerfile'') (Some 10)) = None
        \<and> migrations_at (snd (mergeWranglerConfig [''/app/wrangler.jsonc'' \<mapsto> Descriptor full_v1_config]
                  ''/app/wrangler.jsonc'' ''CacheContainer'' ''CACHE_CONTAINER'' (Some ''./cache/Dockerfile'') (Some 10)))
             ''/app/wrangler.jsonc'' = the (w_migrations full_v1_config) @ [new]
        \<and> new_sqlite_classes new = Some [''CacheContainer'']
        \<and> tag new = ''v2''
        \<and> tag new \<notin> set (map tag (the (w_migrations full_v1_config))))"
proof -
  let ?p = "''/app/wrangler.jsonc''"
  let ?ms = "[\<lparr> new_sqlite_classes = Some [''ApiContainer'', ''WebContainer'', ''JobContainer''], tag = ''v1'' \<rparr>]"
  have m: "the (w_migrations full_v1_config) = ?ms" and m': "w_migrations full_v1_config = Some ?ms"
    by (simp_all add: full_v1_config_def plain_worker_config_def)
  have h1: "[?p \<mapsto> Descriptor full_v1_config] ?p = Some (Descriptor full_v1_config)" by simp
  have h3: "?ms \<noteq> []" by simp
  have h4: "\<not> classExistsInMigrations ?ms ''CacheContainer''"
    by (simp add: classExistsInMigrations_def)
  have h5: "length (classes_of (last ?ms)) \<ge> 3" by (simp add: classes_of_def)
  have h6: "sequential_tags ?ms"
    by (simp add: sequential_tags_def show_nat.simps digit_char_def digit_chars_def)
  have s: "show_nat (length ?ms + 1) = ''2''" by (simp add: show_nat.simps digit_char_def digit_chars_def)
  from new_tag_is_next_count[where fs = "[?p \<mapsto> Descriptor full_v1_config]" and p = ?p
        and D = full_v1_config and ms = ?ms and cn = "''CacheContainer''" and bn = "''CACHE_CONTAINER''"
        and df = "Some ''./cache/Dockerfile''" and mi = "Some 10", OF h1 m' h3 h4 h5] h6 s
  have "\<exists>new. fst (mergeWranglerConfig [?p \<mapsto> Descriptor full_v1_config] ?p
                  ''CacheContainer'' ''CACHE_CONTAINER'' (Some ''./cache/Dockerfile'') (Some 10)) = None
        \<and> migrations_at (snd (mergeWranglerConfig [?p \<mapsto> Descriptor full_v1_config]
                  ?p ''CacheContainer'' ''CACHE_CONTAINER'' (Some ''./cache/Dockerfile'') (Some 10)))
             ?p = ?ms @ [new]
        \<and> new_sqlite_classes new = Some [''CacheContainer'']
        \<and> tag new = ''v2''
        \<and> tag new \<notin> set (map tag ?ms)"
    by (elim exE conjE) (rule_tac x = new in exI, simp)
  with h1 h3 h4 h5 h6 show ?thesis unfolding m by blast
qed

text \<open>
  C4 as stated fails: a descriptor whose only migration is tagged \<^verbatim>\<open>v2\<close> and holds three
  classes gets a second migration tagged \<^verbatim>\<open>v2\<close>.
\<close>

theorem new_tag_collides:
  "\<not> classExistsInMigrations (the (w_migrations crowded_v2_config)) ''CacheContainer''
   \<and> length (classes_of (last (the (w_migrations crowded_v2_config)))) \<ge> 3
   \<and> fst (mergeWranglerConfig [''/app/wrangler.jsonc'' \<mapsto> Descriptor crowded_v2_config] ''/app/wrangler.jsonc''
        ''CacheContainer'' ''CACHE_CONTAINER'' (Some ''./Dockerfile'') (Some 10)) = None
   \<and> map tag (migrations_at (snd (mergeWranglerConfig [''/app/wrangler.jsonc'' \<mapsto> Descriptor crowded_v2_config]
        ''/app/wrangler.jsonc'' ''CacheContainer'' ''CACHE_CONTAINER'' (Some ''./Dockerfile'') (Some 10)))
        ''/app/wrangler.jsonc'') = [''v2'', ''v2'']"
  by (simp add: mergeWranglerConfig_def readDescriptor_def mergeConfig_def writeFile_def
      migrations_at_def allocateMigration_def classExistsInMigrations_def
      crowded_v2_config_def plain_worker_config_def classes_of_def show_nat.simps digit_char_def digit_chars_def)

lemma batch_bounded_allocate:
  assumes "batch_bounded ms" "allocateMigration ms cn = Inr ms'"
  shows "batch_bounded ms'"
proof (cases "classExistsInMigrations ms cn")
  case True
  with assms show ?thesis by (simp add: allocate_registered)
next
  case False
  from assms(2) have ne: "ms \<noteq> []" by (rule allocate_ok_nonempty)
  from assms(1) ne have bl: "batch_bounded (butlast ms)"
    by (auto simp: batch_bounded_def list_all_iff dest: in_set_butlastD)
  show ?thesis
  proof (cases "length (classes_of (last ms)) \<ge> 3")
    case True
    with allocate_cases[OF ne False] assms(2)
    have "ms' = ms @ [\<lparr> new_sqlite_classes = Some [cn], tag = ''v'' @ show_nat (length ms + 1) \<rparr>]" by simp
    with assms(1) show ?thesis by (simp add: batch_bounded_def classes_of_def)
  next
    case F: False
    with allocate_cases[OF ne False] assms(2)
    have "ms' = butlast ms @ [(last ms)\<lparr> new_sqlite_classes := Some (classes_of (last ms) @ [cn]) \<rparr>]" by simp
    with bl F show ?thesis by (simp add: batch_bounded_def classes_of_def)
  qed
qed

lemma batch_bounded_merge:
  "batch_bounded (migrations_at fs p) \<Longrightarrow>
   batch_bounded (migrations_at (snd (mergeWranglerConfig fs p cn bn df mi)) p)"
  by (auto simp: merge_migrations_at split: sum.splits option.splits fs_entry.splits
      dest: batch_bounded_allocate)

lemma batch_bounded_merge_all:
  "batch_bounded (migrations_at fs p) \<Longrightarrow> batch_bounded (migrations_at (merge_all fs p reqs) p)"
proof (induction reqs arbitrary: fs)
  case Nil
  then show ?case by simp
next
  case (Cons r reqs)
  obtain cn bn df mi where r: "r = (cn, bn, df, mi)" by (cases r) auto
  from Cons.prems have "batch_bounded (migrations_at (snd (mergeWranglerConfig fs p cn bn df mi)) p)"
    by (rule batch_bounded_merge)
  then show ?case unfolding r by (simp add: Cons.IH)
qed

text \<open>
  C5. Any sequence of merges keeps every migration at three classes or fewer, from a
  descriptor that is within the bound and in particular from a freshly generated one. A
  merge of an unregistered class appends it to the latest migration when that one holds
  fewer than three classes, and otherwise appends a new migration with this class alone.
\<close>

theorem batch_allocation_bounded:
  "(batch_bounded (migrations_at fs p) \<longrightarrow> batch_bounded (migrations_at (merge_all fs p reqs) p))
   \<and> batch_bounded (migrations_at
        (merge_all (fs(p \<mapsto> Descriptor (generateWranglerConfig pn c0 b0 d0 m0 date))) p reqs) p)
   \<and> (fs p = Some (Descriptor D) \<and> w_migrations D = Some ms \<and> ms \<noteq> []
        \<and> \<not> classExistsInMigrations ms cn \<longrightarrow>
      migrations_at (snd (mergeWranglerConfig fs p cn bn df mi)) p =
        (if length (classes_of (last ms)) < 3
         then butlast ms @ [(last ms)\<lparr> new_sqlite_classes := Some (classes_of (last ms) @ [cn]) \<rparr>]
         else ms @ [\<lparr> new_sqlite_classes = Some [cn], tag = ''v'' @ show_nat (length ms + 1) \<rparr>]))"
proof (intro conjI impI)
  assume "batch_bounded (migrations_at fs p)"
  then show "batch_bounded (migrations_at (merge_all fs p reqs) p)"
    by (rule batch_bounded_merge_all)
next
  have "batch_bounded (migrations_at (fs(p \<mapsto> Descriptor (generateWranglerConfig pn c0 b0 d0 m0 date))) p)"
    by (simp add: migrations_at_def generateWranglerConfig_def batch_bounded_def classes_of_def)
  then show "batch_bounded (migrations_at
        (merge_all (fs(p \<mapsto> Descriptor (generateWranglerConfig pn c0 b0 d0 m0 date))) p reqs) p)"
    by (rule batch_bounded_merge_all)
next
  assume a: "fs p = Some (Descriptor D) \<and> w_migrations D = Some ms \<and> ms \<noteq> []
        \<and> \<not> classExistsInMigrations ms cn"
  then have "allocateMigration ms cn =
     Inr (if length (classes_of (last ms)) \<ge> 3
          then ms @ [\<lparr> new_sqlite_classes = Some [cn], tag = ''v'' @ show_nat (length ms + 1) \<rparr>]
          else butlast ms @ [(last ms)\<lparr> new_sqlite_classes := Some (classes_of (last ms) @ [cn]) \<rparr>])"
    by (simp add: allocate_cases)
  with a show "migrations_at (snd (mergeWranglerConfig fs p cn bn df mi)) p =
        (if length (classes_of (last ms)) < 3
         then butlast ms @ [(last ms)\<lparr> new_sqlite_classes := Some (classes_of (last ms) @ [cn]) \<rparr>]
         else ms @ [\<lparr> new_sqlite_classes = Some [cn], tag = ''v'' @ show_nat (length ms + 1) \<rparr>])"
    by (simp add: merge_on_descriptor[of fs p D] migrations_at_def not_le)
qed

lemma four_requests_result:
  "migrations_at (merge_all [''/app/wrangler.jsonc'' \<mapsto> Descriptor one_migration_config] ''/app/wrangler.jsonc'' four_requests)
     ''/app/wrangler.jsonc'' =
   [\<lparr> new_sqlite_classes = Some [''ApiContainer'', ''WebContainer'', ''JobContainer''], tag = ''v1'' \<rparr>,
    \<lparr> new_sqlite_classes = Some [''CacheContainer'', ''MailContainer''], tag = ''v2'' \<rparr>]"
  by (simp add: four_requests_def mergeWranglerConfig_def readDescriptor_def mergeConfig_def writeFile_def
      migrations_at_def allocateMigration_def classExistsInMigrations_def
      one_migration_config_def plain_worker_config_def show_nat.simps digit_char_def digit_chars_def)

theorem batch_allocation_bounded_witness:
  "batch_bounded (migrations_at [''/app/wrangler.jsonc'' \<mapsto> Descriptor one_migration_config] ''/app/wrangler.jsonc'')
   \<and> batch_bounded (migrations_at
        (merge_all [''/app/wrangler.jsonc'' \<mapsto> Descriptor one_migration_config] ''/app/wrangler.jsonc'' four_requests)
        ''/app/wrangler.jsonc'')
   \<and> map classes_of (migrations_at
        (merge_all [''/app/wrangler.jsonc'' \<mapsto> Descriptor one_migration_config] ''/app/wrangler.jsonc'' four_requests)
        ''/app/wrangler.jsonc'')
       = [[''ApiContainer'', ''WebContainer'', ''JobContainer''], [''CacheContainer'', ''MailContainer'']]
   \<and> migrations_at (snd (mergeWranglerConfig [''/app/wrangler.jsonc'' \<mapsto> Descriptor full_v1_config]
        ''/app/wrangler.jsonc'' ''CacheContainer'' ''CACHE_CONTAINER'' (Some ''./cache/Dockerfile'') (Some 10)))
        ''/app/wrangler.jsonc''
       = the (w_migrations full_v1_config) @ [\<lparr> new_sqlite_classes = Some [''CacheContainer''], tag = ''v2'' \<rparr>]"
proof -
  let ?p = "''/app/wrangler.jsonc''"
  let ?fs = "[?p \<mapsto> Descriptor one_migration_config]"
  let ?ms = "[\<lparr> new_sqlite_classes = Some [''ApiContainer'', ''WebContainer'', ''JobContainer''], tag = ''v1'' \<rparr>]"
  have h1: "batch_bounded (migrations_at ?fs ?p)"
    by (simp add: migrations_at_def one_migration_config_def plain_worker_config_def batch_bounded_def classes_of_def)
  have h2: "[?p \<mapsto> Descriptor full_v1_config] ?p = Some (Descriptor full_v1_config)
        \<and> w_migrations full_v1_config = Some ?ms \<and> ?ms \<noteq> []
        \<and> \<not> classExistsInMigrations ?ms ''CacheContainer''"
    by (simp add: full_v1_config_def plain_worker_config_def classExistsInMigrations_def)
  have s: "show_nat (Suc (Suc 0)) = ''2''" by (simp add: show_nat.simps digit_char_def digit_chars_def)
  note t1 = batch_allocation_bounded[of ?fs ?p four_requests]
  note t2 = batch_allocation_bounded[THEN conjunct2, THEN conjunct2, rule_format,
      where fs = "[?p \<mapsto> Descriptor full_v1_config]" and p = ?p and D = full_v1_config and ms = ?ms
        and cn = "''CacheContainer''" and bn = "''CACHE_CONTAINER''" and df = "Some ''./cache/Dockerfile''"
        and mi = "Some 10", OF h2]
  from t1 h1 have c2: "batch_bounded (migrations_at (merge_all ?fs ?p four_requests) ?p)" by blast
  from t2 have c4: "migrations_at (snd (mergeWranglerConfig [?p \<mapsto> Descriptor full_v1_config]
        ?p ''CacheContainer'' ''CACHE_CONTAINER'' (Some ''./cache/Dockerfile'') (Some 10))) ?p
       = ?ms @ [\<lparr> new_sqlite_classes = Some [''CacheContainer''], tag = ''v2'' \<rparr>]"
    by (simp add: classes_of_def s)
  have c3: "map classes_of (migrations_at (merge_all ?fs ?p four_requests) ?p)
       = [[''ApiContainer'', ''WebContainer'', ''JobContainer''], [''CacheContainer'', ''MailContainer'']]"
    by (simp add: four_requests_result classes_of_def)
  have m: "the (w_migrations full_v1_config) = ?ms"
    by (simp add: full_v1_config_def plain_worker_config_def)
  from h1 c2 c3 c4 m show ?thesis by simp
qed

section \<open>Properties of the binding name\<close>

lemma border_free:
  assumes "suffix us ''CONTAINER''" "prefix us ''CONTAINER''"
  shows "us = [] \<or> us = ''CONTAINER''"
proof -
  from assms(1) have "us \<in> set (suffixes ''CONTAINER'')" by (simp only: in_set_suffixes)
  then have "us \<in> {[], ''R'', ''ER'', ''NER'', ''INER'', ''AINER'', ''TAINER'', ''NTAINER'', ''ONTAINER'', ''CONTAINER''}"
    by simp
  with assms(2) show ?thesis by auto
qed

lemma no_straddle:
  assumes "\<not> prefix ''CONTAINER'' V" "V \<noteq> []"
  shows "\<not> prefix ''CONTAINER'' (V @ ''CONTAINER'')"
proof
  assume "prefix ''CONTAINER'' (V @ ''CONTAINER'')"
  with assms(1) obtain us where us: "''CONTAINER'' = V @ us" "prefix us ''CONTAINER''"
    by (auto simp: prefix_append)
  from us(1) have "suffix us ''CONTAINER''" by (metis suffixI)
  from this us(2) have "us = [] \<or> us = ''CONTAINER''" by (rule border_free)
  then show False
  proof
    assume "us = []"
    with us(1) have "V = ''CONTAINER''" by simp
    with assms(1) show False by simp
  next
    assume "us = ''CONTAINER''"
    with us(1) have "V = []" by (metis append_self_conv2)
    with assms(2) show False by simp
  qed
qed

lemma replace_trailing_token:
  "\<not> sublist ''CONTAINER'' U \<Longrightarrow> replace_first ''CONTAINER'' R (U @ ''CONTAINER'') = U @ R"
proof (induction U)
  case Nil
  show ?case by simp
next
  case (Cons u U)
  from Cons.prems have np: "\<not> prefix ''CONTAINER'' (u # U)" and ns: "\<not> sublist ''CONTAINER'' U"
    by (simp_all add: sublist_Cons_right)
  from no_straddle[OF np] have "\<not> prefix ''CONTAINER'' (u # (U @ ''CONTAINER''))"
    by (simp only: append_Cons list.distinct not_False_eq_True)
  then have "replace_first ''CONTAINER'' R (u # (U @ ''CONTAINER'')) = u # replace_first ''CONTAINER'' R (U @ ''CONTAINER'')"
    by (simp only: replace_first.simps if_False)
  with Cons.IH[OF ns] show ?case by (simp only: append_Cons)
qed

lemma upper_Container: "toUpperCase (a @ ''Container'') = toUpperCase a @ ''CONTAINER''"
  by (simp add: toUpperCase_def upper_char_def lower_letters_def upper_letters_def)

text \<open>
  C7 (as amended). For class names of the generated form, a base followed by
  \<^verbatim>\<open>Container\<close>, whose base in upper case does not contain \<^verbatim>\<open>CONTAINER\<close>, the
  binding name is the base in upper case followed by \<^verbatim>\<open>_CONTAINER\<close>; two such names
  get the same binding name exactly when their bases are equal up to letter case.
\<close>

theorem binding_name_of_generated_form:
  assumes "\<not> sublist ''CONTAINER'' (toUpperCase a)" and "\<not> sublist ''CONTAINER'' (toUpperCase b)"
  shows "bindingNameOf (a @ ''Container'') = toUpperCase a @ ''_CONTAINER''
       \<and> (bindingNameOf (a @ ''Container'') = bindingNameOf (b @ ''Container'')
            \<longleftrightarrow> toUpperCase a = toUpperCase b)"
  using assms by (simp add: bindingNameOf_def upper_Container replace_trailing_token)

theorem binding_name_of_generated_form_witness:
  "\<not> sublist ''CONTAINER'' (toUpperCase ''Nginx'') \<and> \<not> sublist ''CONTAINER'' (toUpperCase ''redis-cache'')
   \<and> bindingNameOf ''NginxContainer'' = ''NGINX_CONTAINER''
   \<and> bindingNameOf ''NginxContainer'' \<noteq> bindingNameOf ''redis-cacheContainer''"
proof -
  have u1: "toUpperCase ''Nginx'' = ''NGINX''" and u2: "toUpperCase ''redis-cache'' = ''REDIS-CACHE''"
    by (simp_all add: toUpperCase_def upper_char_def lower_letters_def upper_letters_def)
  have h1: "\<not> sublist ''CONTAINER'' (toUpperCase ''Nginx'')"
    unfolding u1 by (simp add: sublist_Cons_right)
  have h2: "\<not> sublist ''CONTAINER'' (toUpperCase ''redis-cache'')"
    unfolding u2 by (simp add: sublist_Cons_right)
  note t = binding_name_of_generated_form[OF h1 h2]
  from t have a: "bindingNameOf (''Nginx'' @ ''Container'') = ''NGINX_CONTAINER''"
    by (simp add: u1)
  from t have "bindingNameOf (''Nginx'' @ ''Container'') = bindingNameOf (''redis-cache'' @ ''Container'')
      \<longleftrightarrow> ''NGINX'' = ''REDIS-CACHE''"
    unfolding u1 u2 by (rule conjunct2)
  then have b: "bindingNameOf (''Nginx'' @ ''Container'') \<noteq> bindingNameOf (''redis-cache'' @ ''Container'')"
    by simp
  from a b h1 h2 show ?thesis by simp
qed

text \<open>
  C7 as stated fails: the derivation is not one-to-one. A class name and the same name
  with the \<^verbatim>\<open>Container\<close> token, and two names that differ in letter case only, get the
  same binding name.
\<close>

theorem binding_names_collide:
  "''Api'' \<noteq> ''ApiContainer'' \<and> bindingNameOf ''Api'' = bindingNameOf ''ApiContainer''
   \<and> ''apiContainer'' \<noteq> ''ApiContainer'' \<and> bindingNameOf ''apiContainer'' = bindingNameOf ''ApiContainer''"
  by (simp add: bindingNameOf_def toUpperCase_def upper_char_def lower_letters_def upper_letters_def)

section \<open>Properties of detection\<close>















text \<open>
  What the pattern needs of the text: a match begins with the five letters, so a line
  that does not begin with them is passed over, and the search reaches the first line that
  does.
\<close>

lemma rx_match_chars:
  "rx_match (map RChar p @ as) u = Some caps \<Longrightarrow> prefix p u"
proof (induction p arbitrary: u caps)
  case Nil
  then show ?case by simp
next
  case (Cons a p)
  then show ?case by (cases u) (auto split: if_splits)
qed

lemma image_pattern_prefix:
  "rx_match image_pattern u = Some caps \<Longrightarrow> prefix ''IMAGE'' u"
  unfolding image_pattern_def by (rule rx_match_chars)



lemma no_line_no_match:
  "no_image_line b t \<Longrightarrow> rx_search_lines image_pattern b t = None"
proof (induction t arbitrary: b)
  case Nil
  then show ?case by (simp add: image_pattern_def)
next
  case (Cons x xs)
  have "(if b then rx_match image_pattern (x # xs) else None) = None"
  proof (cases b)
    case True
    with Cons.prems have "\<not> prefix ''IMAGE'' (x # xs)" by (auto split: if_splits)
    with image_pattern_prefix[of "x # xs"] True show ?thesis
      by (cases "rx_match image_pattern (x # xs)") auto
  qed simp
  moreover from Cons.prems have "no_image_line (is_line_terminator x) xs" by (auto split: if_splits)
  ultimately show ?case using Cons.IH by simp
qed




text \<open>
  An environment file none of whose lines begins with \<^verbatim>\<open>IMAGE\<close> leaves the detection
  state, and with it the image of the argument, as it was.
\<close>

lemma env_without_image_line:
  assumes "fs (path_join (cwd c) ''.env'') = Some (Text t)" "no_image_line True t"
  shows "detect_env c fs s = Inr s"
  using assms(1) no_line_no_match[OF assms(2)]
  by (simp add: detect_env_def pathExists_def readFile_def match_image_def Let_def)





section \<open>Properties of the resolver\<close>

lemma sort_results_top:
  assumes "rs \<noteq> []"
  shows "\<forall>r \<in> set rs. confidence r \<le> confidence (sort_results rs ! 0)"
proof -
  let ?f = "\<lambda>r. - confidence r"
  let ?s = "sort_key ?f rs"
  from assms have ne: "?s \<noteq> []" by (metis length_0_conv length_sort)
  then obtain x xs where s: "?s = x # xs" by (cases ?s) auto
  have "sorted (map ?f ?s)" by (rule sorted_sort_key)
  with s have "\<forall>y \<in> set xs. ?f x \<le> ?f y" by simp
  then have le: "\<forall>y \<in> set ?s. confidence y \<le> confidence x" using s by auto
  have "set ?s = set rs" by simp
  with le have "\<forall>y \<in> set rs. confidence y \<le> confidence x" by blast
  moreover from s have "sort_results rs ! 0 = x" by (simp add: sort_results_def)
  ultimately show ?thesis by simp
qed

text \<open>
  With \<^verbatim>\<open>opts.noPrompt\<close> set, as a configuration file can set it, and the two best
  results less than 0.1 apart, \<^verbatim>\<open>autoDetect\<close> returns the first result of the sorted
  list, whose confidence no other result exceeds, and shows no prompt; the outcome is
  the same whatever the person at the terminal would have answered.
\<close>

lemma near_tie_without_prompt:
  assumes np: "opt_noPrompt opts"
    and col: "collect_results ds c opts fs = Inr rs"
    and two: "length rs > 1"
    and near: "confidence (sort_results rs ! 0) - confidence (sort_results rs ! 1) < 0.1"
  shows "autoDetect ds c opts w fs = (Inr (Some (sort_results rs ! 0)), [])
       \<and> (\<forall>r \<in> set rs. confidence r \<le> confidence (sort_results rs ! 0))
       \<and> autoDetect ds c opts w' fs = autoDetect ds c opts w fs"
proof -
  from two have ne: "rs \<noteq> []" by auto
  from two have l: "length (sort_results rs) > 1" by (simp add: sort_results_def)
  have a: "\<And>w. autoDetect ds c opts w fs = (Inr (Some (sort_results rs ! 0)), [])"
    using np col ne l near by (simp add: autoDetect_def Let_def)
  from a sort_results_top[OF ne] show ?thesis by simp
qed

lemma two_detectors_collect:
  "collect_results [containerDetector, compose_detector] nginx_ctx ci_opts Map.empty =
     Inr [\<lparr> r_detector_id = ''container'', r_detector_name = ''Container'', confidence = 0.95,
             indicators = [''Explicit image reference: nginx:alpine''],
             metadata = \<lparr> image = Some ''nginx:alpine'', dockerfilePath = None \<rparr> \<rparr>,
          \<lparr> r_detector_id = ''compose'', r_detector_name = ''Compose'', confidence = 0.9,
             indicators = [''Found services''], metadata = \<lparr> image = None, dockerfilePath = None \<rparr> \<rparr>]"
  by (simp add: containerDetector_def compose_detector_def detect_def detect_arg_def detect_dockerfile_def
      detect_compose_def detect_docker_dir_def detect_env_def detect_manifest_def pathExists_def
      nginx_ctx_def includes_char_def path_extname_def path_basename_def Let_def)

lemma near_tie_without_prompt_example:
  "opt_noPrompt ci_opts
   \<and> fst (autoDetect [containerDetector, compose_detector] nginx_ctx ci_opts first_answer Map.empty)
       = fst (autoDetect [containerDetector, compose_detector] nginx_ctx ci_opts last_answer Map.empty)
   \<and> snd (autoDetect [containerDetector, compose_detector] nginx_ctx ci_opts last_answer Map.empty) = []
   \<and> (\<exists>r. fst (autoDetect [containerDetector, compose_detector] nginx_ctx ci_opts last_answer Map.empty) = Inr (Some r)
          \<and> r_detector_id r = ''container'' \<and> confidence r = 0.95)"
proof -
  let ?rs = "[\<lparr> r_detector_id = ''container'', r_detector_name = ''Container'', confidence = 0.95,
             indicators = [''Explicit image reference: nginx:alpine''],
             metadata = \<lparr> image = Some ''nginx:alpine'', dockerfilePath = None \<rparr> \<rparr>,
          \<lparr> r_detector_id = ''compose'', r_detector_name = ''Compose'', confidence = 0.9,
             indicators = [''Found services''], metadata = \<lparr> image = None, dockerfilePath = None \<rparr> \<rparr>]"
  have h1: "opt_noPrompt ci_opts" by (simp add: ci_opts_def)
  have s: "sort_results ?rs = ?rs" by (simp add: sort_results_def)
  have h3: "length ?rs > 1" by simp
  have h4: "confidence (sort_results ?rs ! 0) - confidence (sort_results ?rs ! 1) < 0.1"
    unfolding s by simp
  note t = near_tie_without_prompt[OF h1 two_detectors_collect h3 h4, of last_answer first_answer]
  from t have e: "autoDetect [containerDetector, compose_detector] nginx_ctx ci_opts last_answer Map.empty
      = (Inr (Some (?rs ! 0)), [])" unfolding s by (rule conjunct1)
  from t have q: "autoDetect [containerDetector, compose_detector] nginx_ctx ci_opts first_answer Map.empty
      = autoDetect [containerDetector, compose_detector] nginx_ctx ci_opts last_answer Map.empty"
    by simp
  from h1 e q show ?thesis by simp
qed

text \<open>Without \<^verbatim>\<open>opts.noPrompt\<close> the same near-tie is put to the person at the terminal.\<close>

lemma near_tie_with_prompt:
  "snd (autoDetect [containerDetector, compose_detector] nginx_ctx (ci_opts\<lparr> opt_noPrompt := False \<rparr>)
          last_answer Map.empty) \<noteq> []
   \<and> (\<exists>r. fst (autoDetect [containerDetector, compose_detector] nginx_ctx (ci_opts\<lparr> opt_noPrompt := False \<rparr>)
          last_answer Map.empty) = Inr (Some r) \<and> r_detector_id r = ''compose'')"
  by (simp add: autoDetect_def sort_results_def last_answer_def first_answer_def choice_of_def
      containerDetector_def compose_detector_def detect_def detect_arg_def detect_dockerfile_def
      detect_compose_def detect_docker_dir_def detect_env_def detect_manifest_def pathExists_def
      nginx_ctx_def includes_char_def path_extname_def path_basename_def Let_def)

text \<open>
  No command line sets \<^verbatim>\<open>opts.noPrompt\<close>, so every near-tie of a run configured by flags
  alone is put to the person at the terminal, and the result is that person's selection.
\<close>

lemma flags_leave_noPrompt: "opt_noPrompt (apply_flag opts f) = opt_noPrompt opts"
  by (cases f) simp_all

lemma foldl_flags_leave_noPrompt: "opt_noPrompt (foldl apply_flag opts flags) = opt_noPrompt opts"
  by (induction flags arbitrary: opts) (simp_all add: flags_leave_noPrompt)

lemma command_line_never_sets_noPrompt: "\<not> opt_noPrompt (parse_options flags)"
  by (simp add: parse_options_def foldl_flags_leave_noPrompt default_opts_def)

lemma near_tie_on_command_line:
  assumes col: "collect_results ds c (parse_options flags) fs = Inr rs"
    and two: "length rs > 1"
    and near: "confidence (sort_results rs ! 0) - confidence (sort_results rs ! 1) < 0.1"
  shows "autoDetect ds c (parse_options flags) w fs
           = (Inr (Some (select w (map choice_of (sort_results rs)))), [map choice_of (sort_results rs)])"
proof -
  from two have ne: "rs \<noteq> []" by auto
  from two have l: "length (sort_results rs) > 1" by (simp add: sort_results_def)
  show ?thesis
    using col ne l near command_line_never_sets_noPrompt[of flags] by (simp add: autoDetect_def Let_def)
qed


section \<open>Properties of scaffolding\<close>

lemma detect_empty_dir:
  assumes "args c = [''nginx:alpine'']"
  shows "detect c opts Map.empty =
     Inr (Some \<lparr> r_detector_id = ''container'', r_detector_name = ''Container'', confidence = 0.95,
             indicators = [''Explicit image reference: nginx:alpine''],
             metadata = \<lparr> image = Some ''nginx:alpine'', dockerfilePath = None \<rparr> \<rparr>)"
  using assms
  by (simp add: detect_def detect_arg_def detect_dockerfile_def
      detect_compose_def detect_docker_dir_def detect_env_def detect_manifest_def pathExists_def
      includes_char_def path_extname_def path_basename_def Let_def)

lemma nginx_names:
  "map sanitize_char (hd (split_on CHR '':'' (last (split_on CHR ''/'' ''nginx:alpine'')))) = ''nginx''"
  "baseClassName ''nginx'' = ''NginxContainer''"
  "bindingNameOf ''NginxContainer'' = ''NGINX_CONTAINER''"
  by (simp_all add: sanitize_char_def lower_letters_def upper_letters_def digit_chars_def
      baseClassName_def bindingNameOf_def toUpperCase_def upper_char_def)

lemma nginx_project:
  "opt_name opts = None \<Longrightarrow> resolveProjectName c opts (Some ''nginx:alpine'') = ''nginx''"
  by (simp add: resolveProjectName_def truthy_def sanitize_char_def lower_letters_def upper_letters_def digit_chars_def)

lemma nginx_class:
  "opt_class opts = None \<Longrightarrow> resolveClassName Map.empty c opts None ''nginx'' = ''NginxContainer''"
  by (simp add: resolveClassName_def truthy_def generateUniqueClassName_def existingClasses_def
      readDescriptor_def nginx_names)

lemma scaffold_empty_dir:
  assumes "opt_name opts = None" "opt_class opts = None"
    and "image (metadata r) = Some ''nginx:alpine''" "dockerfilePath (metadata r) = None"
  shows "scaffold c opts r w Map.empty =
     (Inr (Some \<lparr> sr_projectName = ''nginx'', sr_className = ''NginxContainer'', sr_bindingName = ''NGINX_CONTAINER'' \<rparr>),
      [path_join (cwd c) ''Dockerfile.generated'' \<mapsto> Text (generatedDockerfile ''nginx:alpine''),
       path_join (cwd c) ''src'' \<mapsto> Dir,
       path_join (cwd c) ''src/index.ts'' \<mapsto> Worker [(''NginxContainer'', 8080)],
       path_join (cwd c) ''wrangler.jsonc'' \<mapsto> Descriptor (generateWranglerConfig ''nginx'' ''NginxContainer''
           ''NGINX_CONTAINER'' (Some ''./Dockerfile.generated'')
           (parseInt (if truthy (opt_maxInstances opts) then the (opt_maxInstances opts) else ''10'')) (today w)),
       path_join (cwd c) ''tsconfig.json'' \<mapsto> Opaque,
       path_join (cwd c) ''package.json'' \<mapsto> Opaque,
       path_join (cwd c) ''.cfignore'' \<mapsto> Text cfignore])"
  using assms
  by (simp add: scaffold_def nginx_project nginx_class nginx_names truthy_def findExistingContainer_def
      pathExists_def finalDockerfilePath_def containerPort_def writeFile_def ensureDir_def
      generateWorkerCode_def path_join_def Let_def)

text \<open>
  C6. In an empty directory with the argument \<^verbatim>\<open>nginx:alpine\<close> and no name or class
  override, detection gives confidence 0.95 and that image; scaffolding writes
  \<^verbatim>\<open>Dockerfile.generated\<close> with \<^verbatim>\<open>FROM nginx:alpine\<close> and \<^verbatim>\<open>EXPOSE 8080\<close>, a stub
  whose class listens on 8080 and has a name ending in \<^verbatim>\<open>Container\<close>, and a descriptor
  whose only migration is tagged \<^verbatim>\<open>v1\<close> and registers that class.
\<close>

theorem nginx_alpine_scenario:
  assumes "args c = [''nginx:alpine'']" and "opt_name opts = None" and "opt_class opts = None"
  shows "\<exists>r sr fs'. detect c opts Map.empty = Inr (Some r)
           \<and> confidence r = 0.95 \<and> image (metadata r) = Some ''nginx:alpine''
           \<and> scaffold c opts r w Map.empty = (Inr (Some sr), fs')
           \<and> fs' (path_join (cwd c) ''Dockerfile.generated'')
                = Some (Text (''FROM nginx:alpine'' @ [CHR 0x0A] @ ''EXPOSE 8080''))
           \<and> suffix ''Container'' (sr_className sr)
           \<and> fs' (path_join (cwd c) ''src/index.ts'') = Some (Worker [(sr_className sr, 8080)])
           \<and> migrations_at fs' (path_join (cwd c) ''wrangler.jsonc'')
                = [\<lparr> new_sqlite_classes = Some [sr_className sr], tag = ''v1'' \<rparr>]"
proof -
  define r where "r = \<lparr> r_detector_id = ''container'', r_detector_name = ''Container'', confidence = 0.95,
             indicators = [''Explicit image reference: nginx:alpine''],
             metadata = \<lparr> image = Some ''nginx:alpine'', dockerfilePath = None \<rparr> \<rparr>"
  define sr where "sr = \<lparr> sr_projectName = ''nginx'', sr_className = ''NginxContainer'',
             sr_bindingName = ''NGINX_CONTAINER'' \<rparr>"
  define fs' where "fs' = snd (scaffold c opts r w Map.empty)"
  have d: "detect c opts Map.empty = Inr (Some r)"
    unfolding r_def by (rule detect_empty_dir[OF assms(1)])
  have m: "image (metadata r) = Some ''nginx:alpine''" "dockerfilePath (metadata r) = None"
    and cf: "confidence r = 0.95"
    by (simp_all add: r_def)
  note sc = scaffold_empty_dir[OF assms(2,3) m, of c w]
  have s1: "scaffold c opts r w Map.empty = (Inr (Some sr), fs')"
    by (simp add: sc fs'_def sr_def)
  have f: "fs' (path_join (cwd c) ''Dockerfile.generated'')
                = Some (Text (''FROM nginx:alpine'' @ [CHR 0x0A] @ ''EXPOSE 8080''))"
    "fs' (path_join (cwd c) ''src/index.ts'') = Some (Worker [(sr_className sr, 8080)])"
    "migrations_at fs' (path_join (cwd c) ''wrangler.jsonc'')
                = [\<lparr> new_sqlite_classes = Some [sr_className sr], tag = ''v1'' \<rparr>]"
    by (simp_all add: fs'_def sc sr_def path_join_def generatedDockerfile_def migrations_at_def
        generateWranglerConfig_def)
  have sfx: "suffix ''Container'' (sr_className sr)"
    unfolding sr_def by (simp add: suffix_def)
  from d cf m(1) s1 f sfx show ?thesis by blast
qed

theorem nginx_alpine_scenario_witness:
  "args nginx_ctx = [''nginx:alpine''] \<and> opt_name ci_opts = None \<and> opt_class ci_opts = None
   \<and> (\<exists>r sr fs'. detect nginx_ctx ci_opts Map.empty = Inr (Some r)
           \<and> confidence r = 0.95 \<and> image (metadata r) = Some ''nginx:alpine''
           \<and> scaffold nginx_ctx ci_opts r first_answer Map.empty = (Inr (Some sr), fs')
           \<and> fs' ''/app/Dockerfile.generated'' = Some (Text (''FROM nginx:alpine'' @ [CHR 0x0A] @ ''EXPOSE 8080''))
           \<and> suffix ''Container'' (sr_className sr)
           \<and> fs' ''/app/src/index.ts'' = Some (Worker [(sr_className sr, 8080)])
           \<and> migrations_at fs' ''/app/wrangler.jsonc''
                = [\<lparr> new_sqlite_classes = Some [sr_className sr], tag = ''v1'' \<rparr>])"
proof -
  have h1: "args nginx_ctx = [''nginx:alpine'']" and h2: "opt_name ci_opts = None"
    and h3: "opt_class ci_opts = None"
    by (simp_all add: nginx_ctx_def ci_opts_def)
  have p: "path_join (cwd nginx_ctx) ''Dockerfile.generated'' = ''/app/Dockerfile.generated''"
    "path_join (cwd nginx_ctx) ''src/index.ts'' = ''/app/src/index.ts''"
    "path_join (cwd nginx_ctx) ''wrangler.jsonc'' = ''/app/wrangler.jsonc''"
    by (simp_all add: nginx_ctx_def path_join_def)
  from nginx_alpine_scenario[OF h1 h2 h3, of first_answer] h1 h2 h3 show ?thesis
    unfolding p by blast
qed

lemma tagged_opts_fields: "opt_name tagged_opts = None" "opt_class tagged_opts = None" "opt_migrationTag tagged_opts = Some ''v4''"
    "opt_noPrompt tagged_opts" "opt_maxInstances tagged_opts = Some ''10''"
    by (simp_all add: tagged_opts_def ci_opts_def)

lemma nginx_detection_metadata: "image (metadata nginx_detection) = Some ''nginx:alpine''" "dockerfilePath (metadata nginx_detection) = None"
    by (simp_all add: nginx_detection_def)

lemma two_tag_config_fields: "w_containers two_tag_config = Some [\<lparr> c_class_name = ''ApiContainer'', c_image = Str ''./api/Dockerfile'',
                                c_max_instances = Some 5, c_instance_type = ''basic'' \<rparr>,
                             \<lparr> c_class_name = ''WebContainer'', c_image = Str ''./web/Dockerfile'',
                                c_max_instances = Some 5, c_instance_type = ''basic'' \<rparr>]"
  "w_migrations two_tag_config = Some [\<lparr> new_sqlite_classes = Some [''ApiContainer''], tag = ''v4'' \<rparr>,
                             \<lparr> new_sqlite_classes = Some [''WebContainer''], tag = ''v5'' \<rparr>]"
  by (simp_all add: two_tag_config_def plain_worker_config_def)

lemma nginx_cwd: "cwd nginx_ctx = ''/app''" by (simp add: nginx_ctx_def)

lemma tagged_scaffold_existing: "migrations_at (snd (scaffold nginx_ctx tagged_opts nginx_detection first_answer [''/app/wrangler.jsonc'' \<mapsto> Descriptor two_tag_config])) ''/app/wrangler.jsonc''
       = [\<lparr> new_sqlite_classes = Some [''ApiContainer''], tag = ''v4'' \<rparr>,
          \<lparr> new_sqlite_classes = Some [''WebContainer'', ''NginxContainer''], tag = ''v5'' \<rparr>]"
    by (simp add: scaffold_def nginx_detection_metadata nginx_project[OF tagged_opts_fields(1)] nginx_names tagged_opts_fields truthy_def nginx_cwd path_join_def
      findExistingContainer_def resolveClassName_def generateUniqueClassName_def existingClasses_def two_tag_config_fields
      pathExists_def finalDockerfilePath_def containerPort_def writeFile_def ensureDir_def
      generateWorkerCode_def Let_def mergePackageJsonDependencies_def
      mergeWranglerConfig_def readDescriptor_def mergeConfig_def allocateMigration_def classExistsInMigrations_def
      migrations_at_def)

lemma tagged_scaffold_fresh:
  "migrations_at (snd (scaffold nginx_ctx tagged_opts nginx_detection first_answer Map.empty))
         ''/app/wrangler.jsonc'' = [\<lparr> new_sqlite_classes = Some [''NginxContainer''], tag = ''v1'' \<rparr>]"
  by (simp add: scaffold_empty_dir[OF tagged_opts_fields(1,2) nginx_detection_metadata] migrations_at_def
      path_join_def nginx_ctx_def generateWranglerConfig_def)

text \<open>
  C2. The claim asks that a supplied migration tag decides where a newly registered class
  goes. \<^verbatim>\<open>scaffold\<close> has the option but passes it neither to \<^verbatim>\<open>mergeWranglerConfig\<close>
  nor to \<^verbatim>\<open>generateWranglerConfig\<close>: with the tag \<^verbatim>\<open>v4\<close> and a descriptor that has a
  migration \<^verbatim>\<open>v4\<close>, the class is appended to the latest migration \<^verbatim>\<open>v5\<close>, and a fresh
  descriptor is tagged \<^verbatim>\<open>v1\<close>.
\<close>

theorem migration_tag_override_ignored:
  "opt_migrationTag tagged_opts = Some ''v4''
   \<and> migrations_at (snd (scaffold nginx_ctx tagged_opts nginx_detection first_answer
         [''/app/wrangler.jsonc'' \<mapsto> Descriptor two_tag_config])) ''/app/wrangler.jsonc''
       = [\<lparr> new_sqlite_classes = Some [''ApiContainer''], tag = ''v4'' \<rparr>,
          \<lparr> new_sqlite_classes = Some [''WebContainer'', ''NginxContainer''], tag = ''v5'' \<rparr>]
   \<and> migrations_at (snd (scaffold nginx_ctx tagged_opts nginx_detection first_answer Map.empty))
         ''/app/wrangler.jsonc''
       = [\<lparr> new_sqlite_classes = Some [''NginxContainer''], tag = ''v1'' \<rparr>]"
  using tagged_opts_fields(3) tagged_scaffold_existing tagged_scaffold_fresh by simp

section \<open>Properties of the command\<close>























end
